theory Spec2Isabelle
  imports Main "HOL-Library.Multiset" "HOL-Library.Sublist" "HOL-Library.List_Lexorder" "HOL-Library.Char_ord"
begin

section \<open>Bulk uploader: shallow embedding of \<open>rl_upload.py\<close>\<close>

subsection \<open>Formatting integers\<close>

text \<open>
  The source formats status codes and the retry budget with f-strings
  (\<^verbatim>\<open>f"HTTP {code}"\<close>). For a Python \<open>int\<close> that is its decimal
  representation, with a leading minus sign for a negative value.
\<close>

definition digit_char :: "nat \<Rightarrow> char" where
  "digit_char d = ''0123456789'' ! d"

fun str_nat :: "nat \<Rightarrow> string" where
  "str_nat n = (if n < 10 then [digit_char n] else str_nat (n div 10) @ [digit_char (n mod 10)])"

declare str_nat.simps [simp del]

definition str_int :: "int \<Rightarrow> string" where
  "str_int i = (if i < 0 then CHR ''-'' # str_nat (nat (- i)) else str_nat (nat i))"

subsection \<open>Responses, exceptions and the outcome of one call\<close>

text \<open>
  A response descriptor is whatever object the upload operation returns. The code reads
  only its \<open>status_code\<close> attribute; \<open>None\<close> stands for an object without that
  attribute, for which the attribute access raises \<open>AttributeError\<close> (whose text names the
  type of the object).
\<close>

record response =
  obj_type :: string
  status_code :: "int option"

text \<open>
  The \<open>except\<close> clauses of \<open>upload_with_retry\<close> are tried in order, so an exception is
  classified by the first clause it is an instance of: \<open>requests.exceptions.Timeout\<close>,
  then \<open>requests.exceptions.ConnectionError\<close>, then \<open>Exception\<close>. What is no instance of
  \<open>Exception\<close> (\<open>KeyboardInterrupt\<close>, \<open>SystemExit\<close>) is not caught at all; such an
  exception carries the status with which the process ends when nothing catches it
  (\<open>n\<close> for \<^verbatim>\<open>SystemExit(n)\<close>, the status of a process ended by \<open>SIGINT\<close> for
  \<open>KeyboardInterrupt\<close>). An uncaught \<open>Exception\<close> ends the process with status 1.
\<close>

datatype exc_class = Timeout | ConnectionError | OtherException | NotAnException int

record exc =
  cls :: exc_class
  type_name :: string \<comment> \<open>\<^verbatim>\<open>type(exc).__name__\<close>\<close>
  message :: string \<comment> \<open>\<^verbatim>\<open>str(exc)\<close>\<close>
  embedded :: "response option" \<comment> \<open>\<^verbatim>\<open>getattr(exc, "response", None)\<close>\<close>

datatype attempt = Returned response | Raised exc

definition attribute_error :: "response \<Rightarrow> exc" where
  "attribute_error r =
     \<lparr>cls = OtherException, type_name = ''AttributeError'',
      message = [CHR 0x27] @ obj_type r @ [CHR 0x27] @ '' object has no attribute ''
                @ [CHR 0x27] @ ''status_code'' @ [CHR 0x27],
      embedded = None\<rparr>"

subsection \<open>One pass through the body of the retry loop\<close>

text \<open>
  The \<open>try\<close> statement of \<open>upload_with_retry\<close> either returns from the function, or
  assigns \<open>last_err\<close> and falls through to the back-off code, or lets the exception
  escape.
\<close>

datatype step =
    Return "response option \<times> string option"
  | Continue string
  | Propagate exc

definition handle_exception :: "exc \<Rightarrow> step" where
  "handle_exception e =
     (case cls e of
        Timeout \<Rightarrow> Continue ''timeout''
      | ConnectionError \<Rightarrow> Continue (''connection error: '' @ message e)
      | OtherException \<Rightarrow>
          (case embedded e of
             None \<Rightarrow> Return (None, Some (message e))
           | Some inner_resp \<Rightarrow>
               (case status_code inner_resp of
                  None \<Rightarrow> Return (None, Some (message e))
                | Some code \<Rightarrow>
                    if code = 429 \<or> code \<ge> 500
                    then Continue (''HTTP '' @ str_int code @ '' (via '' @ type_name e @ '')'')
                    else Return (None, Some (''HTTP '' @ str_int code))))
      | NotAnException status \<Rightarrow> Propagate e)"

definition classify :: "attempt \<Rightarrow> step" where
  "classify a =
     (case a of
        Returned response \<Rightarrow>
          (case status_code response of
             None \<Rightarrow> handle_exception (attribute_error response)
           | Some code \<Rightarrow>
               if 200 \<le> code \<and> code < 300 then Return (Some response, None)
               else if code = 429 \<or> code \<ge> 500 then Continue (''HTTP '' @ str_int code)
               else Return (Some response, Some (''HTTP '' @ str_int code)))
      | Raised e \<Rightarrow> handle_exception e)"

subsection \<open>The retry loop\<close>

text \<open>
  The upload operation is an effectful call: it takes the file path and the state of the
  world and gives the outcome of the call and the new state. The loop records what it does
  in a trace: each call of the operation, each progress line and each sleep.

  \<open>retry_delay\<close> is a Python number (a \<open>float\<close> from the command line, the \<open>int\<close>
  default \<open>5\<close> otherwise); its type is left open as \<open>'d\<close>, and the product
  \<^verbatim>\<open>retry_delay * attempt\<close> is the parameter \<open>mul\<close>.

  \<^verbatim>\<open>time.sleep(wait)\<close> raises for a wait it does not accept (\<open>ValueError\<close> for a negative
  number or NaN, \<open>OverflowError\<close> for one that is too large); the parameter
  \<open>sleep_raises\<close> tells for which waits, and what. The call stands after the \<open>try\<close>
  statement, so the exception leaves \<open>upload_with_retry\<close>, after the progress line.
\<close>

datatype 'd event =
    Called string
  | Notice int int string 'd \<comment> \<open>attempt, retries, last\_err, wait\<close>
  | Slept 'd

type_synonym 'w upload_fn = "string \<Rightarrow> 'w \<Rightarrow> attempt \<times> 'w"

type_synonym result = "exc + (response option \<times> string option)"

function upload_loop ::
  "'w upload_fn \<Rightarrow> ('d \<Rightarrow> int \<Rightarrow> 'd) \<Rightarrow> ('d \<Rightarrow> exc option) \<Rightarrow> string \<Rightarrow> int \<Rightarrow> 'd \<Rightarrow> int
     \<Rightarrow> string \<Rightarrow> 'w \<times> 'd event list \<Rightarrow> result \<times> 'w \<times> 'd event list" where
  "upload_loop upload_fn mul sleep_raises file_path retries retry_delay attempt last_err (w, tr) =
     (if attempt > retries
      then (Inr (None, Some (last_err @ '' after '' @ str_int retries @ '' attempts'')), w, tr)
      else
        (case upload_fn file_path w of
           (a, w') \<Rightarrow>
             (case classify a of
                Return r \<Rightarrow> (Inr r, w', tr @ [Called file_path])
              | Propagate e \<Rightarrow> (Inl e, w', tr @ [Called file_path])
              | Continue last_err' \<Rightarrow>
                  if attempt < retries
                  then
                    (case sleep_raises (mul retry_delay attempt) of
                       Some e \<Rightarrow>
                         (Inl e, w',
                          tr @ [Called file_path,
                                Notice attempt retries last_err' (mul retry_delay attempt)])
                     | None \<Rightarrow>
                         upload_loop upload_fn mul sleep_raises file_path retries retry_delay
                           (attempt + 1) last_err'
                           (w', tr @ [Called file_path,
                                      Notice attempt retries last_err' (mul retry_delay attempt),
                                      Slept (mul retry_delay attempt)]))
                  else upload_loop upload_fn mul sleep_raises file_path retries retry_delay
                         (attempt + 1) last_err' (w', tr @ [Called file_path]))))"
  by pat_completeness auto
termination
  by (relation "measure (\<lambda>(upload_fn, mul, sleep_raises, file_path, retries, retry_delay, attempt,
                           last_err, s). nat (retries + 1 - attempt))") auto

declare upload_loop.simps [simp del]

definition upload_with_retry ::
  "'w upload_fn \<Rightarrow> ('d \<Rightarrow> int \<Rightarrow> 'd) \<Rightarrow> ('d \<Rightarrow> exc option) \<Rightarrow> string \<Rightarrow> int \<Rightarrow> 'd \<Rightarrow> 'w
     \<Rightarrow> result \<times> 'w \<times> 'd event list" where
  "upload_with_retry upload_fn mul sleep_raises file_path retries retry_delay w =
     upload_loop upload_fn mul sleep_raises file_path retries retry_delay 1 ''unknown error'' (w, [])"

text \<open>What a trace says: how often the operation was called, and the sleeps in order.\<close>

fun is_call :: "'d event \<Rightarrow> bool" where
  "is_call (Called p) = True"
| "is_call (Notice k n e d) = False"
| "is_call (Slept d) = False"

definition calls :: "'d event list \<Rightarrow> nat" where
  "calls tr = length (filter is_call tr)"

fun sleeps :: "'d event list \<Rightarrow> 'd list" where
  "sleeps [] = []"
| "sleeps (Slept d # tr) = d # sleeps tr"
| "sleeps (Called p # tr) = sleeps tr"
| "sleeps (Notice k n e d # tr) = sleeps tr"

text \<open>
  A scripted upload operation for concrete runs: the world is the list of outcomes still
  to come, each call consumes one, and a call past the end of the script times out.
\<close>

definition timeout_exc :: exc where
  "timeout_exc = \<lparr>cls = Timeout, type_name = ''ReadTimeout'', message = ''timed out'', embedded = None\<rparr>"

definition scripted :: "attempt list upload_fn" where
  "scripted file_path w = (case w of [] \<Rightarrow> (Raised timeout_exc, []) | a # w' \<Rightarrow> (a, w'))"

definition http :: "int \<Rightarrow> response" where
  "http code = \<lparr>obj_type = ''Response'', status_code = Some code\<rparr>"

definition int_mul :: "int \<Rightarrow> int \<Rightarrow> int" where
  "int_mul d k = d * k"

text \<open>
  \<^verbatim>\<open>time.sleep\<close> on a Python \<open>int\<close> (CPython 3.11): a negative number is refused, and
  so is a number of seconds that does not fit the 64-bit count of nanoseconds.
\<close>

definition negative_sleep :: exc where
  "negative_sleep = \<lparr>cls = OtherException, type_name = ''ValueError'',
                      message = ''sleep length must be non-negative'', embedded = None\<rparr>"

definition sleep_overflow :: exc where
  "sleep_overflow = \<lparr>cls = OtherException, type_name = ''OverflowError'',
                      message = ''timestamp too large to convert to C _PyTime_t'', embedded = None\<rparr>"

definition int_sleep :: "int \<Rightarrow> exc option" where
  "int_sleep d = (if d < 0 then Some negative_sleep
                  else if d > 9223372036 then Some sleep_overflow else None)"

definition wrapped :: "int \<Rightarrow> exc" where
  "wrapped code =
     \<lparr>cls = OtherException, type_name = ''HTTPError'', message = ''request failed'',
      embedded = Some (http code)\<rparr>"

definition plain_error :: exc where
  "plain_error =
     \<lparr>cls = OtherException, type_name = ''ValueError'', message = ''bad value'', embedded = None\<rparr>"

section \<open>File collection\<close>

subsection \<open>Fatal endings\<close>

text \<open>
  A function of the source can end the process with \<^verbatim>\<open>sys.exit(1)\<close> after writing
  lines to standard error, or let an exception escape.
\<close>

datatype abort = SysExit int "string list" | Uncaught exc

subsection \<open>The operating system as seen by \<open>collect_files\<close>\<close>

text \<open>
  \<open>collect_files\<close> asks the standard library about the file system
  (\<^verbatim>\<open>os.path.isfile\<close>, \<^verbatim>\<open>os.path.isdir\<close>, \<^verbatim>\<open>os.listdir\<close>, \<^verbatim>\<open>os.walk\<close>), lets it
  compute paths (\<^verbatim>\<open>os.path.join\<close>, \<^verbatim>\<open>os.path.basename\<close>, \<^verbatim>\<open>os.path.abspath\<close>) and
  match names (\<^verbatim>\<open>fnmatch.fnmatch\<close>, name first, pattern second). These functions are
  the environment of the program and a parameter of the model. Paths and names are
  strings, compared and sorted character by character as Python compares \<open>str\<close> values
  (for UTF-8 bytes this is the order of the code points). \<open>os.listdir\<close> can raise
  an \<open>OSError\<close>; \<open>os.walk\<close> yields triples of a directory, its subdirectory names and
  its other entry names, and skips directories it cannot read.
\<close>

record os_env =
  isfile :: "string \<Rightarrow> bool"
  isdir :: "string \<Rightarrow> bool"
  listdir :: "string \<Rightarrow> exc + string list"
  walk :: "string \<Rightarrow> (string \<times> string list \<times> string list) list"
  join :: "string \<Rightarrow> string \<Rightarrow> string"
  basename :: "string \<Rightarrow> string"
  abspath :: "string \<Rightarrow> string"
  fnmatch :: "string \<Rightarrow> string \<Rightarrow> bool"

subsection \<open>\<open>collect_files\<close>\<close>

text \<open>\<^verbatim>\<open>any(fnmatch.fnmatch(fname, p) for p in excludes)\<close>\<close>

definition any_match :: "os_env \<Rightarrow> string \<Rightarrow> string list \<Rightarrow> bool" where
  "any_match env fname excludes = list_ex (\<lambda>p. fnmatch env fname p) excludes"

text \<open>
  The body of both directory loops is the same: build the full path, skip what is not a
  regular file, count and skip what matches an exclude pattern, append the absolute path
  otherwise. \<open>scan\<close> runs it over the pairs of a directory and an entry name, on the
  accumulators \<open>files\<close> and \<open>skipped\<close>.
\<close>

fun scan :: "os_env \<Rightarrow> string list \<Rightarrow> (string \<times> string) list \<Rightarrow> string list \<times> nat
    \<Rightarrow> string list \<times> nat" where
  "scan env excludes [] (files, skipped) = (files, skipped)"
| "scan env excludes ((root, fname) # rest) (files, skipped) =
     (let full = join env root fname in
      if \<not> isfile env full then scan env excludes rest (files, skipped)
      else if any_match env fname excludes then scan env excludes rest (files, skipped + 1)
      else scan env excludes rest (files @ [abspath env full], skipped))"

text \<open>The nested loops over \<^verbatim>\<open>os.walk\<close>: every file name of every triple, in order.\<close>

definition walk_entries :: "(string \<times> string list \<times> string list) list \<Rightarrow> (string \<times> string) list" where
  "walk_entries triples = concat (map (\<lambda>(root, dirs, filenames). map (Pair root) filenames) triples)"

definition collect_files :: "os_env \<Rightarrow> string \<Rightarrow> bool \<Rightarrow> string list
    \<Rightarrow> abort + (string list \<times> nat)" where
  "collect_files env target_path recursive excludes =
     (if isfile env target_path then
        (if any_match env (basename env target_path) excludes then Inr ([], 1)
         else Inr ([abspath env target_path], 0))
      else if \<not> isdir env target_path then
        Inl (SysExit 1 [''ERROR: Path does not exist: '' @ target_path])
      else if recursive then
        (case scan env excludes (walk_entries (walk env target_path)) ([], 0) of
           (files, skipped) \<Rightarrow> Inr (sort files, skipped))
      else
        (case listdir env target_path of
           Inl e \<Rightarrow> Inl (Uncaught e)
         | Inr names \<Rightarrow>
             (case scan env excludes (map (Pair target_path) names) ([], 0) of
                (files, skipped) \<Rightarrow> Inr (sort files, skipped))))"

subsection \<open>What the collector is to do with a directory entry\<close>

text \<open>
  The specification of the two directory modes, against which the loop is compared: an
  entry (a directory and a name in it) is a visited regular file when its full path is a
  regular file; it is excluded when the name itself matches one of the patterns. The
  directory part of the entry plays no role in the exclusion.
\<close>

definition regular_file :: "os_env \<Rightarrow> string \<times> string \<Rightarrow> bool" where
  "regular_file env entry = isfile env (join env (fst entry) (snd entry))"

definition name_excluded :: "os_env \<Rightarrow> string list \<Rightarrow> string \<times> string \<Rightarrow> bool" where
  "name_excluded env excludes entry = (\<exists>p \<in> set excludes. fnmatch env (snd entry) p)"

definition absolute :: "os_env \<Rightarrow> string \<times> string \<Rightarrow> string" where
  "absolute env entry = abspath env (join env (fst entry) (snd entry))"

subsection \<open>Two views of one directory tree\<close>

text \<open>
  The order in which \<^verbatim>\<open>os.listdir\<close> and \<^verbatim>\<open>os.walk\<close> enumerate a directory is not
  specified. Two environments show the same tree below \<open>target_path\<close> when they agree
  on everything but that order: the listing of the directory has the same names, and the
  walk visits the same pairs of directory and file name, each as often.
\<close>

definition same_listing :: "exc + string list \<Rightarrow> exc + string list \<Rightarrow> bool" where
  "same_listing l l' =
     (case (l, l') of
        (Inr names, Inr names') \<Rightarrow> mset names = mset names'
      | (Inl e, Inl e') \<Rightarrow> e = e'
      | _ \<Rightarrow> False)"

definition same_tree :: "os_env \<Rightarrow> os_env \<Rightarrow> string \<Rightarrow> bool" where
  "same_tree env env' target_path \<longleftrightarrow>
     isfile env' = isfile env \<and> isdir env' = isdir env \<and> join env' = join env
     \<and> basename env' = basename env \<and> abspath env' = abspath env \<and> fnmatch env' = fnmatch env
     \<and> same_listing (listdir env target_path) (listdir env' target_path)
     \<and> mset (walk_entries (walk env target_path)) = mset (walk_entries (walk env' target_path))"

subsection \<open>An example tree\<close>

text \<open>
  For concrete runs: POSIX path functions on absolute paths, a matcher for patterns made
  of literal characters, \<open>*\<close> and \<open>?\<close> (compared character by character, so case
  matters), and a small tree:
  \<^verbatim>\<open>
  /data/a.txt   /data/b.exe   /data/c.tmp   /data/dangling (a broken link)
  /data/tmpdir/d.txt   /data/tmpdir/e.tmp
  \<close>
\<close>

fun glob :: "string \<Rightarrow> string \<Rightarrow> bool" where
  "glob [] [] = True"
| "glob (c # name) [] = False"
| "glob name (p # pat) =
     (if p = CHR ''*'' then glob name pat \<or> (case name of [] \<Rightarrow> False | c # name' \<Rightarrow> glob name' (p # pat))
      else (case name of [] \<Rightarrow> False | c # name' \<Rightarrow> (p = CHR ''?'' \<or> p = c) \<and> glob name' pat))"

definition posix_join :: "string \<Rightarrow> string \<Rightarrow> string" where
  "posix_join a b =
     (if b \<noteq> [] \<and> hd b = CHR ''/'' then b
      else if a = [] \<or> last a = CHR ''/'' then a @ b
      else a @ ''/'' @ b)"

definition posix_basename :: "string \<Rightarrow> string" where
  "posix_basename p = rev (takeWhile (\<lambda>c. c \<noteq> CHR ''/'') (rev p))"

definition example_env :: os_env where
  "example_env =
     \<lparr>isfile = (\<lambda>p. p \<in> set [''/data/a.txt'', ''/data/b.exe'', ''/data/c.tmp'',
                               ''/data/tmpdir/d.txt'', ''/data/tmpdir/e.tmp'']),
      isdir = (\<lambda>p. p \<in> set [''/data'', ''/data/tmpdir'']),
      listdir = (\<lambda>p. if p = ''/data'' then Inr [''c.tmp'', ''tmpdir'', ''b.exe'', ''dangling'', ''a.txt'']
                      else Inr []),
      walk = (\<lambda>p. if p = ''/data''
                   then [(''/data'', [''tmpdir''], [''c.tmp'', ''b.exe'', ''dangling'', ''a.txt'']),
                         (''/data/tmpdir'', [], [''e.tmp'', ''d.txt''])]
                   else []),
      join = posix_join,
      basename = posix_basename,
      abspath = (\<lambda>p. p),
      fnmatch = glob\<rparr>"

text \<open>The same tree, enumerated in another order.\<close>

definition example_env' :: os_env where
  "example_env' =
     example_env
       \<lparr>listdir := (\<lambda>p. if p = ''/data'' then Inr [''a.txt'', ''b.exe'', ''c.tmp'', ''dangling'', ''tmpdir'']
                        else Inr []),
        walk := (\<lambda>p. if p = ''/data''
                     then [(''/data'', [''tmpdir''], [''a.txt'', ''dangling'', ''b.exe'', ''c.tmp'']),
                           (''/data/tmpdir'', [], [''d.txt'', ''e.tmp''])]
                     else [])\<rparr>"

section \<open>Resolving the upload operation\<close>

subsection \<open>The client and its methods\<close>

text \<open>
  The SDK client is an object of a library that is not part of the program. Of a method
  the program uses two things: \<^verbatim>\<open>inspect.signature(method)\<close>, which gives the list of
  parameter names or raises when the callable cannot be introspected, and the call
  itself, with one positional or one keyword argument. The argument is a file path or an
  open file handle. The call acts on the state \<open>'r\<close> of the remote side.
\<close>

datatype arg = PathArg string | HandleArg nat

datatype call = Positional arg | Keyword string arg

record 'r sdk_method =
  signature :: "exc + string list"
  invoke :: "call \<Rightarrow> 'r \<Rightarrow> attempt \<times> 'r"

text \<open>\<^verbatim>\<open>getattr(a1000, name, None)\<close>: the attribute of that name, if there is one.\<close>

type_synonym 'r client = "string \<Rightarrow> 'r sdk_method option"

subsection \<open>Open files\<close>

text \<open>
  The state the resolved operation works on: the remote side, the file handles that are
  open, and a log of what was opened, called and closed. \<open>open_fails\<close> tells for which
  paths \<^verbatim>\<open>open(fp, "rb")\<close> raises, and what.
\<close>

datatype io_event = Opened string string nat | Invoked call | Closed nat

record 'r io =
  remote :: 'r
  open_fails :: "string \<Rightarrow> exc option"
  next_handle :: nat
  open_handles :: "nat list"
  io_log :: "io_event list"

definition py_open :: "string \<Rightarrow> string \<Rightarrow> 'r io \<Rightarrow> (exc + nat) \<times> 'r io" where
  "py_open fp mode s =
     (case open_fails s fp of
        Some e \<Rightarrow> (Inl e, s)
      | None \<Rightarrow>
          (Inr (next_handle s),
           s\<lparr>next_handle := next_handle s + 1,
             open_handles := next_handle s # open_handles s,
             io_log := io_log s @ [Opened fp mode (next_handle s)]\<rparr>))"

definition py_close :: "nat \<Rightarrow> 'r io \<Rightarrow> 'r io" where
  "py_close fh s = s\<lparr>open_handles := removeAll fh (open_handles s), io_log := io_log s @ [Closed fh]\<rparr>"

definition call_method :: "'r sdk_method \<Rightarrow> call \<Rightarrow> 'r io \<Rightarrow> attempt \<times> 'r io" where
  "call_method m c s =
     (case invoke m c (remote s) of
        (a, r') \<Rightarrow> (a, s\<lparr>remote := r', io_log := io_log s @ [Invoked c]\<rparr>))"

subsection \<open>Building the callers\<close>

text \<open>
  \<^verbatim>\<open>params[1] if len(params) > 1 and params[0] == "self" else (params[0] if params else None)\<close>
\<close>

definition first_param :: "string list \<Rightarrow> string option" where
  "first_param params =
     (if length params > 1 \<and> params ! 0 = ''self'' then Some (params ! 1)
      else if params \<noteq> [] then Some (params ! 0) else None)"

text \<open>The truth value of \<^verbatim>\<open>if p:\<close> for a string or \<open>None\<close>.\<close>

definition truthy :: "string option \<Rightarrow> bool" where
  "truthy p = (case p of None \<Rightarrow> False | Some name \<Rightarrow> name \<noteq> [])"

text \<open>
  The callers are closures; each constructor is one of them, with the values it captured
  when it was built (the default arguments \<open>m=method\<close>, \<open>p=path_param\<close>):
  \<^item> \<open>KeywordPath m p\<close> is \<^verbatim>\<open>lambda fp, m=method, p=path_param: m(**{p: fp})\<close>;
  \<^item> \<open>PositionalPath m\<close> is \<^verbatim>\<open>lambda fp, m=method: m(fp)\<close>;
  \<^item> \<open>HandleUpload m p\<close> is the inner function \<open>_upload\<close> of \<open>_make_handle_caller\<close>.
\<close>

datatype 'r caller =
    KeywordPath "'r sdk_method" string
  | PositionalPath "'r sdk_method"
  | HandleUpload "'r sdk_method" "string option"

definition make_path_caller :: "'r sdk_method \<Rightarrow> exc + 'r caller" where
  "make_path_caller m =
     (case signature m of
        Inl e \<Rightarrow> Inl e
      | Inr params \<Rightarrow>
          (let path_param = first_param params in
           if truthy path_param then Inr (KeywordPath m (the path_param))
           else Inr (PositionalPath m)))"

definition make_handle_caller :: "'r sdk_method \<Rightarrow> exc + 'r caller" where
  "make_handle_caller m =
     (case signature m of
        Inl e \<Rightarrow> Inl e
      | Inr params \<Rightarrow> Inr (HandleUpload m (first_param params)))"

text \<open>
  Calling a caller on a file path. The \<open>with\<close> statement of \<open>_upload\<close> closes the file
  when its body is left, by \<open>return\<close> or by an exception, and then the value or the
  exception goes on to the caller of \<open>_upload\<close>; when \<open>open\<close> itself raises there is no
  file to close.
\<close>

fun apply_caller :: "'r caller \<Rightarrow> string \<Rightarrow> 'r io \<Rightarrow> attempt \<times> 'r io" where
  "apply_caller (KeywordPath m p) fp s = call_method m (Keyword p (PathArg fp)) s"
| "apply_caller (PositionalPath m) fp s = call_method m (Positional (PathArg fp)) s"
| "apply_caller (HandleUpload m p) fp s =
     (case py_open fp ''rb'' s of
        (Inl e, s1) \<Rightarrow> (Raised e, s1)
      | (Inr fh, s1) \<Rightarrow>
          (case call_method m (if truthy p then Keyword (the p) (HandleArg fh)
                               else Positional (HandleArg fh)) s1 of
             (a, s2) \<Rightarrow> (a, py_close fh s2)))"

subsection \<open>\<open>resolve_upload_fn\<close>\<close>

text \<open>One \<open>for\<close> loop over names: the first attribute that is there.\<close>

fun probe :: "'r client \<Rightarrow> string list \<Rightarrow> 'r sdk_method option" where
  "probe a1000 [] = None"
| "probe a1000 (name # rest) =
     (case a1000 name of Some m \<Rightarrow> Some m | None \<Rightarrow> probe a1000 rest)"

definition not_found_message :: "string list" where
  "not_found_message =
     [''ERROR: Could not find a supported upload method on the A1000 SDK object.'',
      ''       Installed SDK may be too old or too new. Methods checked:'',
      ''       upload_sample_from_path, submit_file_from_path,'',
      ''       upload_sample_from_file, submit_file_from_handle'']"

definition lift_exc :: "exc + 'a \<Rightarrow> abort + 'a" where
  "lift_exc r = (case r of Inl e \<Rightarrow> Inl (Uncaught e) | Inr x \<Rightarrow> Inr x)"

definition resolve_upload_fn :: "'r client \<Rightarrow> abort + 'r caller" where
  "resolve_upload_fn a1000 =
     (case probe a1000 [''upload_sample_from_path'', ''submit_file_from_path''] of
        Some m \<Rightarrow> lift_exc (make_path_caller m)
      | None \<Rightarrow>
          (case probe a1000 [''upload_sample_from_file'', ''submit_file_from_handle''] of
             Some m \<Rightarrow> lift_exc (make_handle_caller m)
           | None \<Rightarrow> Inl (SysExit 1 not_found_message)))"

text \<open>
  The entry points the specification speaks of, in its priority order, and which of them
  take a path.
\<close>

definition candidates :: "string list" where
  "candidates = [''upload_sample_from_path'', ''submit_file_from_path'',
                 ''upload_sample_from_file'', ''submit_file_from_handle'']"

definition path_based :: "string \<Rightarrow> bool" where
  "path_based name \<longleftrightarrow> name = ''upload_sample_from_path'' \<or> name = ''submit_file_from_path''"

subsection \<open>Example methods\<close>

text \<open>
  For concrete runs: the remote side counts the uploads it received; a method answers 200
  to a call that passes the argument positionally or under the name the method expects,
  and otherwise raises \<open>TypeError\<close> before anything is sent. \<open>bare_method\<close> is a
  callable without parameters, so every call with an argument raises; \<open>opaque_method\<close>
  takes the path as its one positional argument and has no signature to introspect.
\<close>

definition type_error :: exc where
  "type_error = \<lparr>cls = OtherException, type_name = ''TypeError'',
                  message = ''unexpected argument'', embedded = None\<rparr>"

definition no_signature :: exc where
  "no_signature = \<lparr>cls = OtherException, type_name = ''ValueError'',
                    message = ''no signature found'', embedded = None\<rparr>"

fun passes_path :: "string \<Rightarrow> call \<Rightarrow> bool" where
  "passes_path name (Positional (PathArg fp)) = True"
| "passes_path name (Keyword k (PathArg fp)) = (k = name)"
| "passes_path name (Positional (HandleArg fh)) = False"
| "passes_path name (Keyword k (HandleArg fh)) = False"

fun passes_handle :: "string \<Rightarrow> call \<Rightarrow> bool" where
  "passes_handle name (Positional (HandleArg fh)) = True"
| "passes_handle name (Keyword k (HandleArg fh)) = (k = name)"
| "passes_handle name (Positional (PathArg fp)) = False"
| "passes_handle name (Keyword k (PathArg fp)) = False"

definition accepting :: "(call \<Rightarrow> bool) \<Rightarrow> call \<Rightarrow> nat \<Rightarrow> attempt \<times> nat" where
  "accepting ok c n = (if ok c then (Returned (http 200), n + 1) else (Raised type_error, n))"

definition path_method :: "nat sdk_method" where
  "path_method = \<lparr>signature = Inr [''sample_path'', ''custom_filename''],
                   invoke = accepting (passes_path ''sample_path'')\<rparr>"

definition bare_method :: "nat sdk_method" where
  "bare_method = \<lparr>signature = Inr [], invoke = accepting (\<lambda>c. False)\<rparr>"

definition opaque_method :: "nat sdk_method" where
  "opaque_method = \<lparr>signature = Inl no_signature, invoke = accepting (passes_path [])\<rparr>"

definition handle_method :: "nat sdk_method" where
  "handle_method = \<lparr>signature = Inr [''file_source''],
                     invoke = accepting (passes_handle ''file_source'')\<rparr>"

definition failing_handle_method :: "nat sdk_method" where
  "failing_handle_method = \<lparr>signature = Inr [''file_source''],
                             invoke = (\<lambda>c n. (Raised (wrapped 503), n + 1))\<rparr>"

definition client_of :: "(string \<times> nat sdk_method) list \<Rightarrow> nat client" where
  "client_of attrs = map_of attrs"

definition io0 :: "nat io" where
  "io0 = \<lparr>remote = 0, open_fails = (\<lambda>fp. None), next_handle = 3, open_handles = [], io_log = []\<rparr>"

section \<open>The run\<close>

text \<open>
  \<open>main\<close> from the point where the arguments are parsed and the SDK client is built:
  resolve the upload operation, collect the files, upload them one after the other and
  print the summary. The model keeps what the program prints per file and at the end (the
  header and the "Found ..." line carry no further information and are left out), and
  the sleeps between files.
\<close>

record 'd args =
  args_target_path :: string
  args_recursive :: bool
  args_exclude :: "string list"
  args_sleep :: 'd
  args_retries :: int
  args_retry_delay :: 'd

datatype 'd out =
    Attempts string "'d event list" \<comment> \<open>what \<open>upload_with_retry\<close> did for the file\<close>
  | Ok_line nat string int \<comment> \<open>position, file, HTTP status\<close>
  | Fail_line nat string string \<comment> \<open>position, file, error\<close>
  | Pause 'd \<comment> \<open>\<^verbatim>\<open>time.sleep(args.sleep)\<close>\<close>
  | Summary nat nat nat nat \<comment> \<open>uploaded, failed, skipped, total\<close>

text \<open>
  \<^verbatim>\<open>response.status_code\<close> in the \<open>[OK]\<close> line; on \<open>None\<close>, or on an object without the
  attribute, the access raises \<open>AttributeError\<close>.
\<close>

definition read_status :: "response option \<Rightarrow> exc + int" where
  "read_status response =
     (case response of
        None \<Rightarrow> Inl (attribute_error \<lparr>obj_type = ''NoneType'', status_code = None\<rparr>)
      | Some r \<Rightarrow> (case status_code r of None \<Rightarrow> Inl (attribute_error r) | Some code \<Rightarrow> Inr code))"

text \<open>
  The \<open>for\<close> loop of \<open>main\<close> over \<open>enumerate(files, 1)\<close>, on the counters \<open>uploaded\<close>
  and \<open>failed\<close>. \<open>n\<close> is \<open>len(files)\<close>. The first component of the result is the
  exception that left the loop, if one did: out of \<open>upload_with_retry\<close>, out of the
  \<open>[OK]\<close> line, or out of \<^verbatim>\<open>time.sleep(args.sleep)\<close>, which comes after the line is
  printed and the counter is raised.
\<close>

fun upload_all ::
  "'w upload_fn \<Rightarrow> ('d \<Rightarrow> int \<Rightarrow> 'd) \<Rightarrow> ('d \<Rightarrow> exc option) \<Rightarrow> 'd args \<Rightarrow> nat \<Rightarrow> nat
     \<Rightarrow> string list \<Rightarrow> nat \<times> nat \<Rightarrow> 'w \<times> 'd out list
     \<Rightarrow> exc option \<times> (nat \<times> nat) \<times> 'w \<times> 'd out list" where
  "upload_all upload_fn mul sleep_raises args n idx [] (uploaded, failed) (s, out) =
     (None, (uploaded, failed), s, out)"
| "upload_all upload_fn mul sleep_raises args n idx (fpath # rest) (uploaded, failed) (s, out) =
     (case upload_with_retry upload_fn mul sleep_raises fpath (args_retries args)
             (args_retry_delay args) s of
        (Inl e, s', tr) \<Rightarrow> (Some e, (uploaded, failed), s', out @ [Attempts fpath tr])
      | (Inr (response, err), s', tr) \<Rightarrow>
          (case err of
             None \<Rightarrow>
               (case read_status response of
                  Inl e \<Rightarrow> (Some e, (uploaded, failed), s', out @ [Attempts fpath tr])
                | Inr code \<Rightarrow>
                    if idx < n
                    then
                      (case sleep_raises (args_sleep args) of
                         Some e \<Rightarrow>
                           (Some e, (uploaded + 1, failed), s',
                            out @ [Attempts fpath tr, Ok_line idx fpath code])
                       | None \<Rightarrow>
                           upload_all upload_fn mul sleep_raises args n (idx + 1) rest
                             (uploaded + 1, failed)
                             (s', out @ [Attempts fpath tr, Ok_line idx fpath code,
                                         Pause (args_sleep args)]))
                    else
                      upload_all upload_fn mul sleep_raises args n (idx + 1) rest
                        (uploaded + 1, failed)
                        (s', out @ [Attempts fpath tr, Ok_line idx fpath code]))
           | Some msg \<Rightarrow>
               if idx < n
               then
                 (case sleep_raises (args_sleep args) of
                    Some e \<Rightarrow>
                      (Some e, (uploaded, failed + 1), s',
                       out @ [Attempts fpath tr, Fail_line idx fpath msg])
                  | None \<Rightarrow>
                      upload_all upload_fn mul sleep_raises args n (idx + 1) rest
                        (uploaded, failed + 1)
                        (s', out @ [Attempts fpath tr, Fail_line idx fpath msg,
                                    Pause (args_sleep args)]))
               else
                 upload_all upload_fn mul sleep_raises args n (idx + 1) rest
                   (uploaded, failed + 1)
                   (s', out @ [Attempts fpath tr, Fail_line idx fpath msg])))"

text \<open>
  How the process ends: \<open>main\<close> returns (exit status 0), or \<^verbatim>\<open>sys.exit\<close> is called, or
  an exception escapes and the interpreter ends the process: with a traceback and status
  1 for an \<open>Exception\<close>, with the status it carries for what is no \<open>Exception\<close>.
\<close>

datatype ending = Finished | Aborted abort

fun exit_status :: "ending \<Rightarrow> int" where
  "exit_status Finished = 0"
| "exit_status (Aborted (SysExit n lines)) = n"
| "exit_status (Aborted (Uncaught e)) =
     (case cls e of NotAnException status \<Rightarrow> status | _ \<Rightarrow> 1)"

definition main ::
  "('d \<Rightarrow> int \<Rightarrow> 'd) \<Rightarrow> ('d \<Rightarrow> exc option) \<Rightarrow> os_env \<Rightarrow> 'r client \<Rightarrow> 'd args \<Rightarrow> 'r io
     \<Rightarrow> ending \<times> 'r io \<times> 'd out list" where
  "main mul sleep_raises env a1000 args s =
     (case resolve_upload_fn a1000 of
        Inl ab \<Rightarrow> (Aborted ab, s, [])
      | Inr upload_fn \<Rightarrow>
          (case collect_files env (args_target_path args) (args_recursive args) (args_exclude args) of
             Inl ab \<Rightarrow> (Aborted ab, s, [])
           | Inr (files, skipped) \<Rightarrow>
               (let total_seen = length files + skipped in
                if files = [] then (Finished, s, [Summary 0 0 skipped total_seen])
                else
                  (case upload_all (apply_caller upload_fn) mul sleep_raises args (length files) 1
                          files (0, 0) (s, []) of
                     (Some e, (uploaded, failed), s', out) \<Rightarrow> (Aborted (Uncaught e), s', out)
                   | (None, (uploaded, failed), s', out) \<Rightarrow>
                       (if failed > 0 then Aborted (SysExit 1 []) else Finished,
                        s', out @ [Summary uploaded failed skipped total_seen])))))"

subsection \<open>Reading the output\<close>

fun is_summary :: "'d out \<Rightarrow> bool" where
  "is_summary (Summary u f k t) = True"
| "is_summary (Attempts p tr) = False"
| "is_summary (Ok_line i p c) = False"
| "is_summary (Fail_line i p e) = False"
| "is_summary (Pause d) = False"

fun is_fail_line :: "'d out \<Rightarrow> bool" where
  "is_fail_line (Fail_line i p e) = True"
| "is_fail_line (Summary u f k t) = False"
| "is_fail_line (Attempts p tr) = False"
| "is_fail_line (Ok_line i p c) = False"
| "is_fail_line (Pause d) = False"

subsection \<open>An example run\<close>

text \<open>
  The example tree, uploaded through a client whose only entry point is path based and
  whose remote side answers 200 to the first call and 503 to every later one.
\<close>

definition flaky :: "call \<Rightarrow> nat \<Rightarrow> attempt \<times> nat" where
  "flaky c n = (if n = 0 then (Returned (http 200), n + 1) else (Returned (http 503), n + 1))"

definition flaky_client :: "nat client" where
  "flaky_client = client_of [(''submit_file_from_path'', \<lparr>signature = Inr [''file_path''], invoke = flaky\<rparr>)]"

definition example_args :: "int args" where
  "example_args =
     \<lparr>args_target_path = ''/data'', args_recursive = False, args_exclude = [''*.tmp''],
      args_sleep = 2, args_retries = 3, args_retry_delay = 5\<rparr>"

section \<open>Properties of the retrying uploader\<close>

subsection \<open>Unfolding the loop\<close>

lemma sleeps_append: "sleeps (xs @ ys) = sleeps xs @ sleeps ys"
  by (induction xs rule: sleeps.induct) auto

lemma calls_append: "calls (xs @ ys) = calls xs + calls ys"
  by (simp add: calls_def)

lemma loop_exhausted:
  "retries < attempt \<Longrightarrow>
   upload_loop upload_fn mul sleep_raises file_path retries retry_delay attempt last_err (w, tr) =
     (Inr (None, Some (last_err @ '' after '' @ str_int retries @ '' attempts'')), w, tr)"
  by (simp add: upload_loop.simps)

lemma loop_return:
  "attempt \<le> retries \<Longrightarrow> upload_fn file_path w = (a, w') \<Longrightarrow> classify a = Return r \<Longrightarrow>
   upload_loop upload_fn mul sleep_raises file_path retries retry_delay attempt last_err (w, tr) =
     (Inr r, w', tr @ [Called file_path])"
  by (simp add: upload_loop.simps)

lemma loop_propagate:
  "attempt \<le> retries \<Longrightarrow> upload_fn file_path w = (a, w') \<Longrightarrow> classify a = Propagate e \<Longrightarrow>
   upload_loop upload_fn mul sleep_raises file_path retries retry_delay attempt last_err (w, tr) =
     (Inl e, w', tr @ [Called file_path])"
  by (simp add: upload_loop.simps)

lemma loop_retry:
  "attempt < retries \<Longrightarrow> upload_fn file_path w = (a, w') \<Longrightarrow> classify a = Continue e \<Longrightarrow>
   sleep_raises (mul retry_delay attempt) = None \<Longrightarrow>
   upload_loop upload_fn mul sleep_raises file_path retries retry_delay attempt last_err (w, tr) =
     upload_loop upload_fn mul sleep_raises file_path retries retry_delay (attempt + 1) e
       (w', tr @ [Called file_path, Notice attempt retries e (mul retry_delay attempt),
                  Slept (mul retry_delay attempt)])"
  by (subst upload_loop.simps) simp

lemma loop_sleep_raises:
  "attempt < retries \<Longrightarrow> upload_fn file_path w = (a, w') \<Longrightarrow> classify a = Continue e \<Longrightarrow>
   sleep_raises (mul retry_delay attempt) = Some x \<Longrightarrow>
   upload_loop upload_fn mul sleep_raises file_path retries retry_delay attempt last_err (w, tr) =
     (Inl x, w', tr @ [Called file_path, Notice attempt retries e (mul retry_delay attempt)])"
  by (subst upload_loop.simps) simp

lemma loop_give_up:
  "attempt = retries \<Longrightarrow> upload_fn file_path w = (a, w') \<Longrightarrow> classify a = Continue e \<Longrightarrow>
   upload_loop upload_fn mul sleep_raises file_path retries retry_delay attempt last_err (w, tr) =
     (Inr (None, Some (e @ '' after '' @ str_int retries @ '' attempts'')), w', tr @ [Called file_path])"
  by (subst upload_loop.simps) (simp add: loop_exhausted)

lemma classify_returned:
  "status_code r = Some code \<Longrightarrow>
   classify (Returned r) =
     (if 200 \<le> code \<and> code < 300 then Return (Some r, None)
      else if code = 429 \<or> code \<ge> 500 then Continue (''HTTP '' @ str_int code)
      else Return (Some r, Some (''HTTP '' @ str_int code)))"
  by (simp add: classify_def)

lemma loop_trace:
  "upload_loop upload_fn mul sleep_raises file_path retries retry_delay attempt last_err (w, tr) = (res, w2, tr2) \<Longrightarrow>
   \<exists>c. calls tr2 = calls tr + c \<and> int c \<le> max 0 (retries + 1 - attempt)
     \<and> (attempt \<le> retries \<longrightarrow> 1 \<le> c)
     \<and> sleeps tr2 = sleeps tr @ map (mul retry_delay) [attempt .. attempt + int c - 2]"
proof (induction upload_fn mul sleep_raises file_path retries retry_delay attempt last_err "(w, tr)"
        arbitrary: w tr res w2 tr2 rule: upload_loop.induct)
  case (1 upload_fn mul sleep_raises file_path retries retry_delay attempt last_err w tr)
  show ?case
  proof (cases "retries < attempt")
    case True
    with "1.prems" have "tr2 = tr" by (simp add: loop_exhausted)
    with True show ?thesis by (intro exI [of _ 0]) simp
  next
    case False
    obtain a w' where call: "upload_fn file_path w = (a, w')" by (cases "upload_fn file_path w")
    from False have le: "attempt \<le> retries" by simp
    show ?thesis
    proof (cases "classify a")
      case (Return r)
      with "1.prems" le call have "tr2 = tr @ [Called file_path]" by (simp add: loop_return)
      with le show ?thesis by (intro exI [of _ 1]) (simp add: calls_append sleeps_append calls_def)
    next
      case (Propagate e)
      with "1.prems" le call have "tr2 = tr @ [Called file_path]" by (simp add: loop_propagate)
      with le show ?thesis by (intro exI [of _ 1]) (simp add: calls_append sleeps_append calls_def)
    next
      case (Continue e)
      show ?thesis
      proof (cases "attempt < retries")
        case True
        note lt = this
        show ?thesis
        proof (cases "sleep_raises (mul retry_delay attempt)")
          case (Some x)
          with "1.prems" lt call Continue
          have "tr2 = tr @ [Called file_path, Notice attempt retries e (mul retry_delay attempt)]"
            by (simp add: loop_sleep_raises)
          with le show ?thesis
            by (intro exI [of _ 1]) (simp add: calls_append sleeps_append calls_def)
        next
          case None
          let ?tr = "tr @ [Called file_path, Notice attempt retries e (mul retry_delay attempt),
                           Slept (mul retry_delay attempt)]"
          from "1.prems" lt call Continue None
          have "upload_loop upload_fn mul sleep_raises file_path retries retry_delay (attempt + 1) e
                  (w', ?tr) = (res, w2, tr2)"
            by (simp add: loop_retry)
          from "1.hyps"(1) [OF False call [symmetric] Continue lt None this]
          obtain c where c: "calls tr2 = calls ?tr + c" "int c \<le> max 0 (retries + 1 - (attempt + 1))"
            "attempt + 1 \<le> retries \<longrightarrow> 1 \<le> c"
            "sleeps tr2 = sleeps ?tr @ map (mul retry_delay) [attempt + 1 .. attempt + 1 + int c - 2]"
            by blast
          from lt c(3) have c1: "1 \<le> c" by simp
          then have "[attempt .. attempt + int (Suc c) - 2]
              = attempt # [attempt + 1 .. attempt + 1 + int c - 2]"
            by (subst upto_rec1) (simp_all add: algebra_simps)
          with c lt show ?thesis
            by (intro exI [of _ "Suc c"]) (simp add: calls_append sleeps_append calls_def)
        qed
      next
        case False
        with le have eq: "attempt = retries" by simp
        with "1.prems" call Continue have "tr2 = tr @ [Called file_path]" by (simp add: loop_give_up)
        with le show ?thesis by (intro exI [of _ 1]) (simp add: calls_append sleeps_append calls_def)
      qed
    qed
  qed
qed



lemma handle_exception_other:
  "cls e = OtherException \<Longrightarrow>
   handle_exception e =
     (case embedded e of
        None \<Rightarrow> Return (None, Some (message e))
      | Some inner_resp \<Rightarrow>
          (case status_code inner_resp of
             None \<Rightarrow> Return (None, Some (message e))
           | Some code \<Rightarrow>
               if code = 429 \<or> code \<ge> 500
               then Continue (''HTTP '' @ str_int code @ '' (via '' @ type_name e @ '')'')
               else Return (None, Some (''HTTP '' @ str_int code))))"
  by (simp add: handle_exception_def)

lemma str_int_examples:
  "str_int 3 = ''3''" "str_int 200 = ''200''" "str_int 302 = ''302''" "str_int 404 = ''404''"
  "str_int 429 = ''429''" "str_int 500 = ''500''" "str_int 503 = ''503''"
  by (simp_all add: str_int_def str_nat.simps digit_char_def)

lemma scripted_Cons: "scripted p (a # w) = (a, w)"
  by (simp add: scripted_def)

lemma status_code_http: "status_code (http c) = Some c"
  by (simp add: http_def)

subsection \<open>Status codes of a call that returns\<close>

text \<open>
  Claim C1. Whenever an attempt of \<open>upload_with_retry\<close> is made (the attempt counter is
  within the budget) and the upload operation returns a response with a status code:
  a status in [200, 300) makes the function return at once with that response and no
  error; status 429 and every status from 500 up are classified as retryable, with
  \<open>last_err\<close> set to "HTTP <status>"; every other status from 400 up makes the function
  return at once with the error "HTTP <status>", and the trace shows the one call and
  neither a sleep nor a further call.
\<close>

theorem status_code_outcomes:
  assumes "attempt \<le> retries"
    and "upload_fn file_path w = (Returned r, w')"
    and "status_code r = Some code"
  shows "(200 \<le> code \<and> code < 300 \<longrightarrow>
            upload_loop upload_fn mul sleep_raises file_path retries retry_delay attempt last_err (w, tr)
              = (Inr (Some r, None), w', tr @ [Called file_path]))
       \<and> (code = 429 \<or> 500 \<le> code \<longrightarrow>
            classify (Returned r) = Continue (''HTTP '' @ str_int code))
       \<and> (400 \<le> code \<and> code < 500 \<and> code \<noteq> 429 \<longrightarrow>
            upload_loop upload_fn mul sleep_raises file_path retries retry_delay attempt last_err (w, tr)
              = (Inr (Some r, Some (''HTTP '' @ str_int code)), w', tr @ [Called file_path]))"
proof (intro conjI impI)
  assume "200 \<le> code \<and> code < 300"
  with assms(3) have "classify (Returned r) = Return (Some r, None)"
    by (simp add: classify_returned)
  with assms(1,2) show "upload_loop upload_fn mul sleep_raises file_path retries retry_delay attempt last_err (w, tr)
      = (Inr (Some r, None), w', tr @ [Called file_path])"
    by (rule loop_return)
next
  assume "code = 429 \<or> 500 \<le> code"
  with assms(3) show "classify (Returned r) = Continue (''HTTP '' @ str_int code)"
    by (auto simp add: classify_returned)
next
  assume "400 \<le> code \<and> code < 500 \<and> code \<noteq> 429"
  with assms(3) have "classify (Returned r) = Return (Some r, Some (''HTTP '' @ str_int code))"
    by (simp add: classify_returned)
  with assms(1,2) show "upload_loop upload_fn mul sleep_raises file_path retries retry_delay attempt last_err (w, tr)
      = (Inr (Some r, Some (''HTTP '' @ str_int code)), w', tr @ [Called file_path])"
    by (rule loop_return)
qed

theorem status_code_outcomes_witness:
  "upload_loop scripted int_mul int_sleep ''a.bin'' 3 5 1 ''unknown error'' ([Returned (http 200)], [])
     = (Inr (Some (http 200), None), [], [Called ''a.bin''])
   \<and> classify (Returned (http 429)) = Continue ''HTTP 429''
   \<and> classify (Returned (http 500)) = Continue ''HTTP 500''
   \<and> upload_loop scripted int_mul int_sleep ''a.bin'' 3 5 1 ''unknown error'' ([Returned (http 404)], [])
     = (Inr (Some (http 404), Some ''HTTP 404''), [], [Called ''a.bin''])"
  using
    status_code_outcomes [where attempt = 1 and retries = 3 and upload_fn = scripted
      and file_path = "''a.bin''" and w = "[Returned (http 200)]" and w' = "[]" and r = "http 200"
      and code = 200 and mul = int_mul and sleep_raises = int_sleep and retry_delay = 5 and last_err = "''unknown error''"
      and tr = "[]"]
    status_code_outcomes [where attempt = 1 and retries = 3 and upload_fn = scripted
      and file_path = "''a.bin''" and w = "[Returned (http 429)]" and w' = "[]" and r = "http 429"
      and code = 429 and mul = int_mul and sleep_raises = int_sleep and retry_delay = 5 and last_err = "''unknown error''"
      and tr = "[]"]
    status_code_outcomes [where attempt = 1 and retries = 3 and upload_fn = scripted
      and file_path = "''a.bin''" and w = "[Returned (http 500)]" and w' = "[]" and r = "http 500"
      and code = 500 and mul = int_mul and sleep_raises = int_sleep and retry_delay = 5 and last_err = "''unknown error''"
      and tr = "[]"]
    status_code_outcomes [where attempt = 1 and retries = 3 and upload_fn = scripted
      and file_path = "''a.bin''" and w = "[Returned (http 404)]" and w' = "[]" and r = "http 404"
      and code = 404 and mul = int_mul and sleep_raises = int_sleep and retry_delay = 5 and last_err = "''unknown error''"
      and tr = "[]"]
  by (simp add: scripted_Cons status_code_http str_int_examples)

text \<open>
  Claim C10. A status in [300, 400) is handled by the same \<open>else\<close> branch as a 4xx
  status other than 429: the function returns at once with the response and the error
  "HTTP <status>", after the one call, with no sleep and no retry.
\<close>

theorem redirect_status_is_terminal:
  assumes "attempt \<le> retries"
    and "upload_fn file_path w = (Returned r, w')"
    and "status_code r = Some code"
    and "300 \<le> code" and "code < 400"
  shows "upload_loop upload_fn mul sleep_raises file_path retries retry_delay attempt last_err (w, tr)
           = (Inr (Some r, Some (''HTTP '' @ str_int code)), w', tr @ [Called file_path])"
proof -
  from assms(3-5) have "classify (Returned r) = Return (Some r, Some (''HTTP '' @ str_int code))"
    by (simp add: classify_returned)
  with assms(1,2) show ?thesis by (rule loop_return)
qed

theorem redirect_status_is_terminal_witness:
  "upload_loop scripted int_mul int_sleep ''a.bin'' 3 5 1 ''unknown error''
       ([Returned (http 302), Returned (http 200)], [])
     = (Inr (Some (http 302), Some ''HTTP 302''), [Returned (http 200)], [Called ''a.bin''])"
  using
    redirect_status_is_terminal [where attempt = 1 and retries = 3 and upload_fn = scripted
      and file_path = "''a.bin''" and w = "[Returned (http 302), Returned (http 200)]"
      and w' = "[Returned (http 200)]" and r = "http 302"
      and code = 302 and mul = int_mul and sleep_raises = int_sleep and retry_delay = 5 and last_err = "''unknown error''"
      and tr = "[]"]
  by (simp add: scripted_Cons status_code_http str_int_examples)

subsection \<open>The back-off\<close>

lemma retry_trace:
  assumes "upload_with_retry upload_fn mul sleep_raises file_path retries retry_delay w = (res, w2, tr2)"
  shows "int (calls tr2) \<le> max 0 retries
       \<and> sleeps tr2 = map (mul retry_delay) [1 .. int (calls tr2) - 1]"
proof -
  from assms
  have "upload_loop upload_fn mul sleep_raises file_path retries retry_delay 1 ''unknown error'' (w, []) = (res, w2, tr2)"
    by (simp add: upload_with_retry_def)
  from loop_trace [OF this] show ?thesis
    by (auto simp add: calls_def)
qed

lemma waits_three_five:
  "prefix (sleeps (snd (snd (upload_with_retry upload_fn int_mul sr file_path 3 5 w)))) [5, 10]"
proof -
  obtain res w2 tr2 where run: "upload_with_retry upload_fn int_mul sr file_path 3 5 w = (res, w2, tr2)"
    by (cases "upload_with_retry upload_fn int_mul sr file_path 3 5 w")
  from retry_trace [OF run]
  have c: "int (calls tr2) \<le> 3" and s: "sleeps tr2 = map (int_mul 5) [1 .. int (calls tr2) - 1]"
    by simp_all
  from c have "calls tr2 = 0 \<or> calls tr2 = 1 \<or> calls tr2 = 2 \<or> calls tr2 = 3" by auto
  then have "sleeps tr2 = [] \<or> sleeps tr2 = [5] \<or> sleeps tr2 = [5, 10]"
    using s by (auto simp add: int_mul_def upto_rec1)
  then show ?thesis using run by auto
qed

text \<open>
  Claim C2. When an attempt is classified as retryable and the attempt counter \<open>k\<close> is
  below \<open>retries\<close>, the loop sleeps \<open>retry_delay * k\<close> and goes on with attempt
  \<open>k + 1\<close>, provided \<^verbatim>\<open>time.sleep\<close> accepts that wait (a retry policy has a delay that
  is not negative; a wait that is negative, NaN or too large is refused, and then the
  exception of \<^verbatim>\<open>time.sleep\<close> leaves \<open>upload_with_retry\<close> after the progress line, with
  no sleep and no further attempt). At \<open>k = retries\<close> the loop returns the failure
  "<last error> after <retries> attempts". For every run, the operation is called at most
  \<open>retries\<close> times, and the sleeps are \<open>retry_delay * 1, retry_delay * 2, ...\<close>, one
  between each two successive calls (linear in the attempt index). With \<open>retries = 3\<close>
  and \<open>retry_delay = 5\<close> the sequence of waits is an initial part of 5, 10.
\<close>

theorem linear_backoff:
  "(attempt < retries \<and> upload_fn file_path w = (a, w') \<and> classify a = Continue e
      \<and> sleep_raises (mul retry_delay attempt) = None \<longrightarrow>
      upload_loop upload_fn mul sleep_raises file_path retries retry_delay attempt last_err (w, tr) =
        upload_loop upload_fn mul sleep_raises file_path retries retry_delay (attempt + 1) e
          (w', tr @ [Called file_path, Notice attempt retries e (mul retry_delay attempt),
                     Slept (mul retry_delay attempt)]))
   \<and> (attempt < retries \<and> upload_fn file_path w = (a, w') \<and> classify a = Continue e
      \<and> sleep_raises (mul retry_delay attempt) = Some x \<longrightarrow>
      upload_loop upload_fn mul sleep_raises file_path retries retry_delay attempt last_err (w, tr) =
        (Inl x, w', tr @ [Called file_path, Notice attempt retries e (mul retry_delay attempt)]))
   \<and> (attempt = retries \<and> upload_fn file_path w = (a, w') \<and> classify a = Continue e \<longrightarrow>
      upload_loop upload_fn mul sleep_raises file_path retries retry_delay attempt last_err (w, tr) =
        (Inr (None, Some (e @ '' after '' @ str_int retries @ '' attempts'')),
         w', tr @ [Called file_path]))
   \<and> (upload_with_retry upload_fn mul sleep_raises file_path retries retry_delay w = (res, w2, tr2) \<longrightarrow>
        int (calls tr2) \<le> max 0 retries
        \<and> sleeps tr2 = map (mul retry_delay) [1 .. int (calls tr2) - 1])
   \<and> prefix (sleeps (snd (snd (upload_with_retry upload_fn int_mul sr file_path 3 5 w)))) [5, 10]"
proof (intro conjI impI)
  assume "attempt < retries \<and> upload_fn file_path w = (a, w') \<and> classify a = Continue e
      \<and> sleep_raises (mul retry_delay attempt) = None"
  then show "upload_loop upload_fn mul sleep_raises file_path retries retry_delay attempt last_err (w, tr) =
        upload_loop upload_fn mul sleep_raises file_path retries retry_delay (attempt + 1) e
          (w', tr @ [Called file_path, Notice attempt retries e (mul retry_delay attempt),
                     Slept (mul retry_delay attempt)])"
    by (simp add: loop_retry)
next
  assume "attempt < retries \<and> upload_fn file_path w = (a, w') \<and> classify a = Continue e
      \<and> sleep_raises (mul retry_delay attempt) = Some x"
  then show "upload_loop upload_fn mul sleep_raises file_path retries retry_delay attempt last_err (w, tr) =
        (Inl x, w', tr @ [Called file_path, Notice attempt retries e (mul retry_delay attempt)])"
    by (simp add: loop_sleep_raises)
next
  assume "attempt = retries \<and> upload_fn file_path w = (a, w') \<and> classify a = Continue e"
  then show "upload_loop upload_fn mul sleep_raises file_path retries retry_delay attempt last_err (w, tr) =
        (Inr (None, Some (e @ '' after '' @ str_int retries @ '' attempts'')),
         w', tr @ [Called file_path])"
    by (simp add: loop_give_up)
next
  assume run: "upload_with_retry upload_fn mul sleep_raises file_path retries retry_delay w = (res, w2, tr2)"
  from retry_trace [OF run] show "int (calls tr2) \<le> max 0 retries" by simp
  from retry_trace [OF run]
  show "sleeps tr2 = map (mul retry_delay) [1 .. int (calls tr2) - 1]" by simp
next
  show "prefix (sleeps (snd (snd (upload_with_retry upload_fn int_mul sr file_path 3 5 w)))) [5, 10]"
    by (rule waits_three_five)
qed

lemma int_sleep_examples:
  "int_sleep 5 = None" "int_sleep 10 = None" "int_sleep 2 = None" "int_sleep (- 1) = Some negative_sleep"
  by (simp_all add: int_sleep_def)

lemma run_503:
  "upload_with_retry scripted int_mul int_sleep ''a.bin'' 3 5
     [Returned (http 503), Returned (http 503), Returned (http 503), Returned (http 200)]
   = (Inr (None, Some ''HTTP 503 after 3 attempts''), [Returned (http 200)],
      [Called ''a.bin'', Notice 1 3 ''HTTP 503'' 5, Slept 5,
       Called ''a.bin'', Notice 2 3 ''HTTP 503'' 10, Slept 10, Called ''a.bin''])"
  by (simp add: upload_with_retry_def upload_loop.simps scripted_Cons classify_returned
      status_code_http str_int_examples int_mul_def int_sleep_examples)

theorem linear_backoff_witness:
  "upload_loop scripted int_mul int_sleep ''a.bin'' 3 5 1 ''unknown error''
       ([Returned (http 503), Returned (http 503), Returned (http 503), Returned (http 200)], [])
     = upload_loop scripted int_mul int_sleep ''a.bin'' 3 5 2 ''HTTP 503''
         ([Returned (http 503), Returned (http 503), Returned (http 200)],
          [Called ''a.bin'', Notice 1 3 ''HTTP 503'' 5, Slept 5])
   \<and> upload_loop scripted int_mul int_sleep ''a.bin'' 3 (- 1) 1 ''unknown error''
       ([Returned (http 503), Returned (http 200)], [])
     = (Inl negative_sleep, [Returned (http 200)],
        [Called ''a.bin'', Notice 1 3 ''HTTP 503'' (- 1)])
   \<and> upload_loop scripted int_mul int_sleep ''a.bin'' 3 5 3 ''HTTP 503''
       ([Returned (http 503), Returned (http 200)],
        [Called ''a.bin'', Notice 1 3 ''HTTP 503'' 5, Slept 5,
         Called ''a.bin'', Notice 2 3 ''HTTP 503'' 10, Slept 10])
     = (Inr (None, Some ''HTTP 503 after 3 attempts''), [Returned (http 200)],
        [Called ''a.bin'', Notice 1 3 ''HTTP 503'' 5, Slept 5,
         Called ''a.bin'', Notice 2 3 ''HTTP 503'' 10, Slept 10, Called ''a.bin''])
   \<and> calls [Called ''a.bin'', Notice 1 3 ''HTTP 503'' (5::int), Slept 5,
         Called ''a.bin'', Notice 2 3 ''HTTP 503'' 10, Slept 10, Called ''a.bin''] = 3
   \<and> sleeps [Called ''a.bin'', Notice 1 3 ''HTTP 503'' (5::int), Slept 5,
         Called ''a.bin'', Notice 2 3 ''HTTP 503'' 10, Slept 10, Called ''a.bin''] = [5, 10]
   \<and> sleeps (snd (snd (upload_with_retry scripted int_mul int_sleep ''a.bin'' 3 5
         [Returned (http 503), Returned (http 503), Returned (http 503), Returned (http 200)])))
       = [5, 10]"
  using
    linear_backoff [where attempt = 1 and retries = 3 and upload_fn = scripted
      and file_path = "''a.bin''" and mul = int_mul and sleep_raises = int_sleep and retry_delay = 5
      and w = "[Returned (http 503), Returned (http 503), Returned (http 503), Returned (http 200)]"
      and a = "Returned (http 503)"
      and w' = "[Returned (http 503), Returned (http 503), Returned (http 200)]"
      and e = "''HTTP 503''" and last_err = "''unknown error''" and tr = "[]"
      and res = "Inr (None, Some ''HTTP 503 after 3 attempts'')" and ?w2.0 = "[Returned (http 200)]"
      and ?tr2.0 = "[Called ''a.bin'', Notice 1 3 ''HTTP 503'' 5, Slept 5,
         Called ''a.bin'', Notice 2 3 ''HTTP 503'' 10, Slept 10, Called ''a.bin'']"]
    linear_backoff [where attempt = 1 and retries = 3 and upload_fn = scripted
      and file_path = "''a.bin''" and mul = int_mul and sleep_raises = int_sleep
      and retry_delay = "- 1"
      and w = "[Returned (http 503), Returned (http 200)]"
      and a = "Returned (http 503)" and w' = "[Returned (http 200)]"
      and e = "''HTTP 503''" and x = negative_sleep and last_err = "''unknown error''" and tr = "[]"]
    linear_backoff [where attempt = 3 and retries = 3 and upload_fn = scripted
      and file_path = "''a.bin''" and mul = int_mul and sleep_raises = int_sleep and retry_delay = 5
      and w = "[Returned (http 503), Returned (http 200)]"
      and a = "Returned (http 503)"
      and w' = "[Returned (http 200)]"
      and e = "''HTTP 503''" and last_err = "''HTTP 503''"
      and tr = "[Called ''a.bin'', Notice 1 3 ''HTTP 503'' 5, Slept 5,
         Called ''a.bin'', Notice 2 3 ''HTTP 503'' 10, Slept 10]"]
  by (simp add: run_503 scripted_Cons classify_returned status_code_http str_int_examples
      int_mul_def calls_def int_sleep_examples)

subsection \<open>Exceptions that are neither timeouts nor connection errors\<close>

lemma status_code_wrapped: "embedded (wrapped c) = Some (http c)" "cls (wrapped c) = OtherException"
  "type_name (wrapped c) = ''HTTPError''"
  by (simp_all add: wrapped_def)

text \<open>
  Claim C3. Whenever an attempt is made and the upload operation raises an exception that
  the third \<open>except\<close> clause catches (an \<open>Exception\<close> that is neither a timeout nor a
  connection error): with an embedded response whose status is 429 or at least 500 the
  attempt is classified as retryable, and \<open>last_err\<close> records the status together with
  the type of the wrapping exception; with an embedded response of any other status the
  function returns at once with the error "HTTP <status>"; with no embedded response, or
  one that has no status code, it returns at once with the text of the exception. In both
  returning cases the trace shows the one call and no sleep.
\<close>

theorem wrapped_exception_outcomes:
  assumes "attempt \<le> retries"
    and "upload_fn file_path w = (Raised e, w')"
    and "cls e = OtherException"
  shows "(embedded e = Some inner \<and> status_code inner = Some code \<and> (code = 429 \<or> 500 \<le> code) \<longrightarrow>
            classify (Raised e)
              = Continue (''HTTP '' @ str_int code @ '' (via '' @ type_name e @ '')''))
       \<and> (embedded e = Some inner \<and> status_code inner = Some code \<and> code \<noteq> 429 \<and> code < 500 \<longrightarrow>
            upload_loop upload_fn mul sleep_raises file_path retries retry_delay attempt last_err (w, tr)
              = (Inr (None, Some (''HTTP '' @ str_int code)), w', tr @ [Called file_path]))
       \<and> (embedded e = None \<or> (embedded e = Some inner \<and> status_code inner = None) \<longrightarrow>
            upload_loop upload_fn mul sleep_raises file_path retries retry_delay attempt last_err (w, tr)
              = (Inr (None, Some (message e)), w', tr @ [Called file_path]))"
proof (intro conjI impI)
  assume "embedded e = Some inner \<and> status_code inner = Some code \<and> (code = 429 \<or> 500 \<le> code)"
  with assms(3)
  show "classify (Raised e) = Continue (''HTTP '' @ str_int code @ '' (via '' @ type_name e @ '')'')"
    by (auto simp add: classify_def handle_exception_other)
next
  assume "embedded e = Some inner \<and> status_code inner = Some code \<and> code \<noteq> 429 \<and> code < 500"
  with assms(3) have "classify (Raised e) = Return (None, Some (''HTTP '' @ str_int code))"
    by (simp add: classify_def handle_exception_other)
  with assms(1,2)
  show "upload_loop upload_fn mul sleep_raises file_path retries retry_delay attempt last_err (w, tr)
          = (Inr (None, Some (''HTTP '' @ str_int code)), w', tr @ [Called file_path])"
    by (rule loop_return)
next
  assume "embedded e = None \<or> (embedded e = Some inner \<and> status_code inner = None)"
  with assms(3) have "classify (Raised e) = Return (None, Some (message e))"
    by (auto simp add: classify_def handle_exception_other)
  with assms(1,2)
  show "upload_loop upload_fn mul sleep_raises file_path retries retry_delay attempt last_err (w, tr)
          = (Inr (None, Some (message e)), w', tr @ [Called file_path])"
    by (rule loop_return)
qed

theorem wrapped_exception_outcomes_witness:
  "classify (Raised (wrapped 503)) = Continue ''HTTP 503 (via HTTPError)''
   \<and> classify (Raised (wrapped 429)) = Continue ''HTTP 429 (via HTTPError)''
   \<and> upload_loop scripted int_mul int_sleep ''a.bin'' 3 5 1 ''unknown error''
        ([Raised (wrapped 404), Returned (http 200)], [])
      = (Inr (None, Some ''HTTP 404''), [Returned (http 200)], [Called ''a.bin''])
   \<and> upload_loop scripted int_mul int_sleep ''a.bin'' 3 5 1 ''unknown error''
        ([Raised plain_error, Returned (http 200)], [])
      = (Inr (None, Some ''bad value''), [Returned (http 200)], [Called ''a.bin''])"
  using
    wrapped_exception_outcomes [where attempt = 1 and retries = 3 and upload_fn = scripted
      and file_path = "''a.bin''" and w = "[Raised (wrapped 503)]" and w' = "[]"
      and e = "wrapped 503" and inner = "http 503" and code = 503]
    wrapped_exception_outcomes [where attempt = 1 and retries = 3 and upload_fn = scripted
      and file_path = "''a.bin''" and w = "[Raised (wrapped 429)]" and w' = "[]"
      and e = "wrapped 429" and inner = "http 429" and code = 429]
    wrapped_exception_outcomes [where attempt = 1 and retries = 3 and upload_fn = scripted
      and file_path = "''a.bin''" and w = "[Raised (wrapped 404), Returned (http 200)]"
      and w' = "[Returned (http 200)]" and e = "wrapped 404" and inner = "http 404" and code = 404
      and mul = int_mul and sleep_raises = int_sleep and retry_delay = 5 and last_err = "''unknown error''" and tr = "[]"]
    wrapped_exception_outcomes [where attempt = 1 and retries = 3 and upload_fn = scripted
      and file_path = "''a.bin''" and w = "[Raised plain_error, Returned (http 200)]"
      and w' = "[Returned (http 200)]" and e = plain_error and inner = "http 0"
      and mul = int_mul and sleep_raises = int_sleep and retry_delay = 5 and last_err = "''unknown error''" and tr = "[]"]
  by (simp add: scripted_Cons status_code_http status_code_wrapped str_int_examples plain_error_def)


section \<open>Properties of the file collector\<close>

subsection \<open>The loop as a filter\<close>

lemma any_match_iff: "any_match env fname excludes \<longleftrightarrow> (\<exists>p \<in> set excludes. fnmatch env fname p)"
  by (simp add: any_match_def list_ex_iff)

lemma scan_eq:
  "scan env excludes es (files, skipped) =
     (files @ map (absolute env) (filter (\<lambda>e. regular_file env e \<and> \<not> name_excluded env excludes e) es),
      skipped + length (filter (\<lambda>e. regular_file env e \<and> name_excluded env excludes e) es))"
proof (induction es arbitrary: files skipped)
  case Nil
  show ?case by simp
next
  case (Cons e es)
  obtain root fname where e: "e = (root, fname)" by (cases e)
  show ?case
    unfolding e
    by (simp add: Cons.IH Let_def regular_file_def name_excluded_def absolute_def any_match_iff)
qed

lemma sort_cong_mset: "mset xs = mset ys \<Longrightarrow> sort xs = sort ys"
  for xs ys :: "'a::linorder list"
  by (rule properties_for_sort) simp_all

lemma length_filter_mset: "mset xs = mset ys \<Longrightarrow> length (filter P xs) = length (filter P ys)"
proof -
  assume "mset xs = mset ys"
  then have "size (filter_mset P (mset xs)) = size (filter_mset P (mset ys))" by simp
  then show ?thesis by (simp only: mset_filter [symmetric] size_mset)
qed

lemma scan_sorted:
  "(case scan env excludes es ([], 0) of (files, skipped) \<Rightarrow> Inr (sort files, skipped)) =
     Inr (sort (map (absolute env) (filter (\<lambda>e. regular_file env e \<and> \<not> name_excluded env excludes e) es)),
          length (filter (\<lambda>e. regular_file env e \<and> name_excluded env excludes e) es))"
  by (simp add: scan_eq)

lemma scan_permuted:
  assumes "mset es = mset es'"
  shows "sort (map (absolute env) (filter (\<lambda>e. regular_file env e \<and> \<not> name_excluded env excludes e) es))
           = sort (map (absolute env) (filter (\<lambda>e. regular_file env e \<and> \<not> name_excluded env excludes e) es'))"
    and "length (filter (\<lambda>e. regular_file env e \<and> name_excluded env excludes e) es)
           = length (filter (\<lambda>e. regular_file env e \<and> name_excluded env excludes e) es')"
proof -
  from assms show "sort (map (absolute env) (filter (\<lambda>e. regular_file env e \<and> \<not> name_excluded env excludes e) es))
           = sort (map (absolute env) (filter (\<lambda>e. regular_file env e \<and> \<not> name_excluded env excludes e) es'))"
    by (intro sort_cong_mset) simp
  from assms show "length (filter (\<lambda>e. regular_file env e \<and> name_excluded env excludes e) es)
           = length (filter (\<lambda>e. regular_file env e \<and> name_excluded env excludes e) es')"
    by (rule length_filter_mset)
qed

lemma collect_sorted: "collect_files env target_path recursive excludes = Inr (files, skipped) \<Longrightarrow> sorted files"
  by (auto simp add: collect_files_def split: if_splits sum.splits prod.splits)

lemma collect_same_tree:
  assumes "same_tree env env' target_path"
  shows "collect_files env' target_path recursive excludes = collect_files env target_path recursive excludes"
proof -
  from assms have same: "isfile env' = isfile env" "isdir env' = isdir env" "join env' = join env"
    "basename env' = basename env" "abspath env' = abspath env" "fnmatch env' = fnmatch env"
    and l: "same_listing (listdir env target_path) (listdir env' target_path)"
    and w: "mset (walk_entries (walk env target_path)) = mset (walk_entries (walk env' target_path))"
    by (simp_all add: same_tree_def)
  have sc: "scan env' excludes es acc = scan env excludes es acc" for es acc
    by (cases acc) (simp add: scan_eq regular_file_def name_excluded_def absolute_def same)
  have am: "any_match env' n excludes = any_match env n excludes" for n
    by (simp add: any_match_def same)
  show ?thesis
  proof (cases "listdir env target_path")
    case (Inl e)
    with l have "listdir env' target_path = Inl e"
      by (cases "listdir env' target_path") (simp_all add: same_listing_def)
    with Inl scan_permuted [OF w [symmetric], of env excludes] show ?thesis
      by (simp add: collect_files_def same sc am scan_sorted)
  next
    case (Inr names)
    with l obtain names' where n': "listdir env' target_path = Inr names'" and m: "mset names = mset names'"
      by (cases "listdir env' target_path") (simp_all add: same_listing_def)
    from m have "mset (map (Pair target_path) names') = mset (map (Pair target_path) names)" by simp
    from scan_permuted [OF this, of env excludes] scan_permuted [OF w [symmetric], of env excludes] Inr n'
    show ?thesis
      by (simp add: collect_files_def same sc am scan_sorted)
  qed
qed

lemma example_same_tree: "same_tree example_env example_env' ''/data''"
  by (simp add: same_tree_def example_env_def example_env'_def same_listing_def walk_entries_def)


subsection \<open>Order and determinism\<close>

text \<open>
  Claim C4. For every root path, recursion flag and list of exclude patterns, the file
  list that \<open>collect_files\<close> returns is sorted ascending (the paths compared as
  strings, character by character), and two collections with the same arguments over the
  same directory tree return the same ordered list and the same skipped count, also when
  the operating system enumerates the directories in another order the second time.
\<close>

theorem collect_files_sorted_deterministic:
  "(collect_files env target_path recursive excludes = Inr (files, skipped) \<longrightarrow> sorted files)
   \<and> (same_tree env env' target_path \<longrightarrow>
        collect_files env' target_path recursive excludes
          = collect_files env target_path recursive excludes)"
  by (intro conjI impI collect_same_tree) (rule collect_sorted)

text \<open>The example tree, collected.\<close>

lemma example_recursive:
  "collect_files example_env ''/data'' True [''*.tmp'', ''tmp*'']
     = Inr ([''/data/a.txt'', ''/data/b.exe'', ''/data/tmpdir/d.txt''], 2)"
  by code_simp

lemma example_recursive':
  "collect_files example_env' ''/data'' True [''*.tmp'', ''tmp*'']
     = Inr ([''/data/a.txt'', ''/data/b.exe'', ''/data/tmpdir/d.txt''], 2)"
  by code_simp

lemma example_flat:
  "collect_files example_env ''/data'' False [''*.tmp'']
     = Inr ([''/data/a.txt'', ''/data/b.exe''], 1)"
  by code_simp

lemma example_flat':
  "collect_files example_env' ''/data'' False [''*.tmp'']
     = Inr ([''/data/a.txt'', ''/data/b.exe''], 1)"
  by code_simp

theorem collect_files_sorted_deterministic_witness:
  "collect_files example_env ''/data'' True [''*.tmp'', ''tmp*'']
     = Inr ([''/data/a.txt'', ''/data/b.exe'', ''/data/tmpdir/d.txt''], 2)
   \<and> sorted [''/data/a.txt'', ''/data/b.exe'', ''/data/tmpdir/d.txt'']
   \<and> same_tree example_env example_env' ''/data''
   \<and> listdir example_env' ''/data'' \<noteq> listdir example_env ''/data''
   \<and> collect_files example_env' ''/data'' True [''*.tmp'', ''tmp*'']
     = collect_files example_env ''/data'' True [''*.tmp'', ''tmp*'']
   \<and> collect_files example_env' ''/data'' False [''*.tmp'']
     = collect_files example_env ''/data'' False [''*.tmp'']"
proof -
  have diff: "listdir example_env' ''/data'' \<noteq> listdir example_env ''/data''"
    by (simp add: example_env_def example_env'_def)
  from collect_files_sorted_deterministic
    [where env = example_env and env' = example_env' and target_path = "''/data''"
       and recursive = True and excludes = "[''*.tmp'', ''tmp*'']"
       and files = "[''/data/a.txt'', ''/data/b.exe'', ''/data/tmpdir/d.txt'']" and skipped = 2]
    collect_files_sorted_deterministic
    [where env = example_env and env' = example_env' and target_path = "''/data''"
       and recursive = False and excludes = "[''*.tmp'']"
       and files = "[''/data/a.txt'', ''/data/b.exe'']" and skipped = 1]
    example_recursive example_same_tree diff
  show ?thesis by blast
qed

subsection \<open>Exclusion looks at the base name only\<close>

text \<open>
  Claim C5. In each of the three modes a visited regular file is excluded exactly when
  its base name matches one of the exclude patterns under the matcher of the platform
  (\<^verbatim>\<open>fnmatch.fnmatch\<close>). For a single file the name tested is \<open>basename target_path\<close>
  and the result is the empty list with count 1, or the one path with count 0. For a
  directory, with or without recursion, the result is the sorted list of the absolute
  paths of the entries that are regular files and whose name matches no pattern, and the
  count of the entries that are regular files and whose name matches one. The directory
  an entry lies in is never given to the matcher, so a pattern that matches only a
  directory name excludes nothing inside that directory.
\<close>

theorem exclusion_by_base_name:
  "(isfile env target_path \<longrightarrow>
      collect_files env target_path recursive excludes =
        (if \<exists>p \<in> set excludes. fnmatch env (basename env target_path) p then Inr ([], 1)
         else Inr ([abspath env target_path], 0)))
   \<and> (\<not> isfile env target_path \<and> isdir env target_path \<and>
        (recursive \<and> es = walk_entries (walk env target_path)
         \<or> \<not> recursive \<and> listdir env target_path = Inr names \<and> es = map (Pair target_path) names) \<longrightarrow>
      collect_files env target_path recursive excludes =
        Inr (sort (map (absolute env)
                    (filter (\<lambda>e. regular_file env e \<and> \<not> name_excluded env excludes e) es)),
             length (filter (\<lambda>e. regular_file env e \<and> name_excluded env excludes e) es)))"
  by (auto simp add: collect_files_def any_match_iff scan_sorted)

lemma example_single:
  "isfile example_env ''/data/c.tmp''" "isfile example_env ''/data/tmpdir/d.txt''"
  "collect_files example_env ''/data/c.tmp'' False [''*.txt'', ''*.tmp''] = Inr ([], 1)"
  "collect_files example_env ''/data/tmpdir/d.txt'' False [''*.TXT'', ''tmp*'', ''*.tmp'']
     = Inr ([''/data/tmpdir/d.txt''], 0)"
  by code_simp+

lemma example_names:
  "\<not> isfile example_env ''/data''" "isdir example_env ''/data''"
  "walk_entries (walk example_env ''/data'')
     = [(''/data'', ''c.tmp''), (''/data'', ''b.exe''), (''/data'', ''dangling''), (''/data'', ''a.txt''),
        (''/data/tmpdir'', ''e.tmp''), (''/data/tmpdir'', ''d.txt'')]"
  "listdir example_env ''/data'' = Inr [''c.tmp'', ''tmpdir'', ''b.exe'', ''dangling'', ''a.txt'']"
  "fnmatch example_env ''tmpdir'' ''tmp*''"
  by code_simp+

theorem exclusion_by_base_name_witness:
  "collect_files example_env ''/data/c.tmp'' False [''*.txt'', ''*.tmp''] = Inr ([], 1)
   \<and> collect_files example_env ''/data/tmpdir/d.txt'' False [''*.TXT'', ''tmp*'', ''*.tmp'']
       = Inr ([''/data/tmpdir/d.txt''], 0)
   \<and> fnmatch example_env ''tmpdir'' ''tmp*''
   \<and> collect_files example_env ''/data'' True [''*.tmp'', ''tmp*'']
       = Inr ([''/data/a.txt'', ''/data/b.exe'', ''/data/tmpdir/d.txt''], 2)
   \<and> collect_files example_env ''/data'' False [''*.tmp'']
       = Inr ([''/data/a.txt'', ''/data/b.exe''], 1)"
proof -
  note single = exclusion_by_base_name [where env = example_env and recursive = False]
  note rec = exclusion_by_base_name
    [where env = example_env and target_path = "''/data''" and recursive = True
       and excludes = "[''*.tmp'', ''tmp*'']"
       and es = "walk_entries (walk example_env ''/data'')"]
  note flat = exclusion_by_base_name
    [where env = example_env and target_path = "''/data''" and recursive = False
       and excludes = "[''*.tmp'']"
       and names = "[''c.tmp'', ''tmpdir'', ''b.exe'', ''dangling'', ''a.txt'']"
       and es = "map (Pair ''/data'') [''c.tmp'', ''tmpdir'', ''b.exe'', ''dangling'', ''a.txt'']"]
  from single [where target_path = "''/data/c.tmp''" and excludes = "[''*.txt'', ''*.tmp'']"]
    example_single(1)
  have 1: "collect_files example_env ''/data/c.tmp'' False [''*.txt'', ''*.tmp'']
      = (if \<exists>p \<in> set [''*.txt'', ''*.tmp'']. fnmatch example_env (basename example_env ''/data/c.tmp'') p
         then Inr ([], 1) else Inr ([abspath example_env ''/data/c.tmp''], 0))"
    by blast
  from rec example_names(1-3)
  have 2: "collect_files example_env ''/data'' True [''*.tmp'', ''tmp*'']
      = Inr (sort (map (absolute example_env)
                    (filter (\<lambda>e. regular_file example_env e \<and> \<not> name_excluded example_env [''*.tmp'', ''tmp*''] e)
                       (walk_entries (walk example_env ''/data'')))),
             length (filter (\<lambda>e. regular_file example_env e \<and> name_excluded example_env [''*.tmp'', ''tmp*''] e)
                       (walk_entries (walk example_env ''/data''))))"
    by blast
  from flat example_names(1,2,4)
  have 3: "collect_files example_env ''/data'' False [''*.tmp'']
      = Inr (sort (map (absolute example_env)
                    (filter (\<lambda>e. regular_file example_env e \<and> \<not> name_excluded example_env [''*.tmp''] e)
                       (map (Pair ''/data'') [''c.tmp'', ''tmpdir'', ''b.exe'', ''dangling'', ''a.txt'']))),
             length (filter (\<lambda>e. regular_file example_env e \<and> name_excluded example_env [''*.tmp''] e)
                       (map (Pair ''/data'') [''c.tmp'', ''tmpdir'', ''b.exe'', ''dangling'', ''a.txt''])))"
    by blast
  from 1 2 3 example_single example_names(5) example_recursive example_flat
  show ?thesis by simp
qed


section \<open>Properties of the resolver\<close>

subsection \<open>Priority of the entry points\<close>

lemma resolve_by_find:
  "resolve_upload_fn a1000 =
     (case find (\<lambda>name. a1000 name \<noteq> None) candidates of
        None \<Rightarrow> Inl (SysExit 1 not_found_message)
      | Some name \<Rightarrow>
          if path_based name then lift_exc (make_path_caller (the (a1000 name)))
          else lift_exc (make_handle_caller (the (a1000 name))))"
  by (auto simp add: resolve_upload_fn_def candidates_def path_based_def split: option.splits)

lemma message_names_candidates:
  "\<forall>name \<in> set candidates. \<exists>line \<in> set not_found_message. sublist name line"
proof -
  have "list_all (\<lambda>name. list_ex (sublist name) not_found_message) candidates"
    by code_simp
  then show ?thesis by (simp add: list_all_iff list_ex_iff)
qed

lemma main_unresolved:
  "resolve_upload_fn a1000 = Inl ab \<Longrightarrow> main mul sleep_raises env a1000 args s = (Aborted ab, s, [])"
  by (simp add: main_def)

text \<open>
  Claim C6. \<open>resolve_upload_fn\<close> takes the first of \<open>upload_sample_from_path\<close>,
  \<open>submit_file_from_path\<close>, \<open>upload_sample_from_file\<close>, \<open>submit_file_from_handle\<close>
  (in this order, the two path-based ones first) that the client has, and builds the path
  caller or the handle caller for it. When the client has none of the four, it ends the
  process with exit status 1 after a message in which each of the four names occurs, and
  \<open>main\<close> ends there: nothing was printed, the state is as it was, no upload was tried.
\<close>

theorem resolve_priority:
  "resolve_upload_fn a1000 =
     (case find (\<lambda>name. a1000 name \<noteq> None) candidates of
        None \<Rightarrow> Inl (SysExit 1 not_found_message)
      | Some name \<Rightarrow>
          if path_based name then lift_exc (make_path_caller (the (a1000 name)))
          else lift_exc (make_handle_caller (the (a1000 name))))
   \<and> map path_based candidates = [True, True, False, False]
   \<and> (\<forall>name \<in> set candidates. \<exists>line \<in> set not_found_message. sublist name line)
   \<and> (find (\<lambda>name. a1000 name \<noteq> None) candidates = None \<longrightarrow>
        main mul sleep_raises env a1000 args s = (Aborted (SysExit 1 not_found_message), s, [])
        \<and> exit_status (Aborted (SysExit 1 not_found_message)) \<noteq> 0)"
proof (intro conjI impI)
  show "map path_based candidates = [True, True, False, False]"
    by (simp add: candidates_def path_based_def)
next
  assume "find (\<lambda>name. a1000 name \<noteq> None) candidates = None"
  then have "resolve_upload_fn a1000 = Inl (SysExit 1 not_found_message)"
    by (simp add: resolve_by_find)
  then show "main mul sleep_raises env a1000 args s = (Aborted (SysExit 1 not_found_message), s, [])"
    by (rule main_unresolved)
qed (simp_all add: resolve_by_find message_names_candidates)

lemma example_signatures:
  "signature path_method = Inr [''sample_path'', ''custom_filename'']"
  "signature bare_method = Inr []"
  "signature opaque_method = Inl no_signature"
  "signature handle_method = Inr [''file_source'']"
  "signature failing_handle_method = Inr [''file_source'']"
  by (simp_all add: path_method_def bare_method_def opaque_method_def handle_method_def
      failing_handle_method_def)

lemma example_first_params:
  "first_param [''sample_path'', ''custom_filename''] = Some ''sample_path''"
  "first_param [''self'', ''file_path''] = Some ''file_path''"
  "first_param [''file_source''] = Some ''file_source''"
  "first_param [] = None"
  by (simp_all add: first_param_def)

lemma message_lines:
  "sublist ''upload_sample_from_path'' (not_found_message ! 2)"
  "sublist ''submit_file_from_path'' (not_found_message ! 2)"
  "sublist ''upload_sample_from_file'' (not_found_message ! 3)"
  "sublist ''submit_file_from_handle'' (not_found_message ! 3)"
  by code_simp+

theorem resolve_priority_witness:
  "resolve_upload_fn (client_of [(''submit_file_from_handle'', handle_method),
                                 (''upload_sample_from_file'', failing_handle_method),
                                 (''submit_file_from_path'', path_method)])
     = Inr (KeywordPath path_method ''sample_path'')
   \<and> resolve_upload_fn (client_of [(''submit_file_from_handle'', handle_method),
                                   (''upload_sample_from_file'', failing_handle_method)])
     = Inr (HandleUpload failing_handle_method (Some ''file_source''))
   \<and> resolve_upload_fn (client_of []) = Inl (SysExit 1 not_found_message)
   \<and> main int_mul int_sleep example_env (client_of []) example_args io0
     = (Aborted (SysExit 1 not_found_message), io0, [])
   \<and> exit_status (Aborted (SysExit 1 not_found_message)) = 1
   \<and> sublist ''upload_sample_from_path'' (not_found_message ! 2)
   \<and> sublist ''submit_file_from_path'' (not_found_message ! 2)
   \<and> sublist ''upload_sample_from_file'' (not_found_message ! 3)
   \<and> sublist ''submit_file_from_handle'' (not_found_message ! 3)"
  using
    resolve_priority [where ?a1000.0 = "client_of [(''submit_file_from_handle'', handle_method),
                                 (''upload_sample_from_file'', failing_handle_method),
                                 (''submit_file_from_path'', path_method)]"]
    resolve_priority [where ?a1000.0 = "client_of [(''submit_file_from_handle'', handle_method),
                                   (''upload_sample_from_file'', failing_handle_method)]"]
    resolve_priority [where ?a1000.0 = "client_of []" and mul = int_mul and sleep_raises = int_sleep and env = example_env
      and args = example_args and s = io0]
    message_lines
  by (simp add: client_of_def candidates_def path_based_def lift_exc_def make_path_caller_def
      make_handle_caller_def example_signatures example_first_params truthy_def)

subsection \<open>The path caller\<close>


lemma call_method_signature: "call_method (m\<lparr>signature := sg\<rparr>) c s = call_method m c s"
  by (simp add: call_method_def)


lemma path_caller_bound:
  "apply_caller (KeywordPath (m\<lparr>signature := sg\<rparr>) p) fp s = call_method m (Keyword p (PathArg fp)) s"
  "apply_caller (PositionalPath (m\<lparr>signature := sg\<rparr>)) fp s = call_method m (Positional (PathArg fp)) s"
  by (simp_all add: call_method_signature)



subsection \<open>The handle caller\<close>

lemma count_list_append: "count_list (xs @ ys) x = count_list xs x + count_list ys x"
  by (induction xs) auto

lemma handle_upload_opened:
  assumes "open_fails s fp = None"
    and "c = (if truthy p then Keyword (the p) (HandleArg (next_handle s))
              else Positional (HandleArg (next_handle s)))"
    and "invoke m c (remote s) = (a0, r0)"
  shows "apply_caller (HandleUpload m p) fp s =
     (a0, s\<lparr>remote := r0, next_handle := next_handle s + 1,
             open_handles := removeAll (next_handle s) (open_handles s),
             io_log := io_log s @ [Opened fp ''rb'' (next_handle s), Invoked c, Closed (next_handle s)]\<rparr>)"
proof (cases "truthy p")
  case True
  with assms show ?thesis by (simp add: py_open_def py_close_def call_method_def)
next
  case False
  with assms show ?thesis by (simp add: py_open_def py_close_def call_method_def)
qed

text \<open>
  Claim C8. A call of the operation built by \<open>_make_handle_caller\<close> on a path that can
  be opened opens the file in mode \<open>rb\<close>, calls the entry point with the handle it got
  (under the parameter name found when the caller was built, or positionally), and closes
  that handle once, after the call and before the outcome goes on to the caller of the
  operation, whether the entry point returned a response (of any status) or raised: the
  log grows by exactly "opened, invoked, closed", the handle is not among the open
  handles afterwards, and the outcome is the one of the entry point. When \<open>open\<close> itself
  raises, that exception is the outcome, and nothing was opened or called.
\<close>

theorem handle_closed_on_every_path:
  "(open_fails s fp = None \<and> apply_caller (HandleUpload m p) fp s = (a, s')
      \<and> c = (if truthy p then Keyword (the p) (HandleArg (next_handle s))
              else Positional (HandleArg (next_handle s))) \<longrightarrow>
        io_log s' = io_log s @ [Opened fp ''rb'' (next_handle s), Invoked c, Closed (next_handle s)]
        \<and> a = fst (invoke m c (remote s))
        \<and> remote s' = snd (invoke m c (remote s))
        \<and> next_handle s \<notin> set (open_handles s')
        \<and> count_list (io_log s') (Closed (next_handle s))
            = count_list (io_log s) (Closed (next_handle s)) + 1)
   \<and> (open_fails s fp = Some e \<longrightarrow> apply_caller (HandleUpload m p) fp s = (Raised e, s))"
proof (intro conjI impI)
  assume e: "open_fails s fp = Some e"
  then show "apply_caller (HandleUpload m p) fp s = (Raised e, s)"
    by (simp add: py_open_def)
next
  assume h: "open_fails s fp = None \<and> apply_caller (HandleUpload m p) fp s = (a, s')
      \<and> c = (if truthy p then Keyword (the p) (HandleArg (next_handle s))
              else Positional (HandleArg (next_handle s)))"
  then have o: "open_fails s fp = None" and r: "apply_caller (HandleUpload m p) fp s = (a, s')"
    and c: "c = (if truthy p then Keyword (the p) (HandleArg (next_handle s))
              else Positional (HandleArg (next_handle s)))"
    by simp_all
  obtain a0 r0 where i: "invoke m c (remote s) = (a0, r0)" by (cases "invoke m c (remote s)")
  from handle_upload_opened [OF o c i] r have a: "a = a0"
    and s': "s' = s\<lparr>remote := r0, next_handle := next_handle s + 1,
                 open_handles := removeAll (next_handle s) (open_handles s),
                 io_log := io_log s @ [Opened fp ''rb'' (next_handle s), Invoked c, Closed (next_handle s)]\<rparr>"
    by (simp_all del: apply_caller.simps)
  from s'
  show "io_log s' = io_log s @ [Opened fp ''rb'' (next_handle s), Invoked c, Closed (next_handle s)]"
    by simp
  from a i show "a = fst (invoke m c (remote s))" by simp
  from s' i show "remote s' = snd (invoke m c (remote s))" by simp
  from s' show "next_handle s \<notin> set (open_handles s')" by simp
  from s' show "count_list (io_log s') (Closed (next_handle s))
            = count_list (io_log s) (Closed (next_handle s)) + 1"
    by (simp add: count_list_append)
qed

lemma example_handle_runs:
  "apply_caller (HandleUpload handle_method (Some ''file_source'')) ''/data/a.txt'' io0
     = (Returned (http 200),
        io0\<lparr>remote := 1, next_handle := 4,
            io_log := [Opened ''/data/a.txt'' ''rb'' 3, Invoked (Keyword ''file_source'' (HandleArg 3)), Closed 3]\<rparr>)"
  "apply_caller (HandleUpload failing_handle_method (Some ''file_source'')) ''/data/a.txt'' io0
     = (Raised (wrapped 503),
        io0\<lparr>remote := 1, next_handle := 4,
            io_log := [Opened ''/data/a.txt'' ''rb'' 3, Invoked (Keyword ''file_source'' (HandleArg 3)), Closed 3]\<rparr>)"
  "apply_caller (HandleUpload handle_method (Some ''file_source'')) ''/data/gone'' (io0\<lparr>open_fails := (\<lambda>fp. Some plain_error)\<rparr>)
     = (Raised plain_error, io0\<lparr>open_fails := (\<lambda>fp. Some plain_error)\<rparr>)"
  by (simp_all add: py_open_def py_close_def call_method_def handle_method_def
      failing_handle_method_def accepting_def io0_def truthy_def)

theorem handle_closed_on_every_path_witness:
  "apply_caller (HandleUpload handle_method (Some ''file_source'')) ''/data/a.txt'' io0
     = (Returned (http 200),
        io0\<lparr>remote := 1, next_handle := 4,
            io_log := [Opened ''/data/a.txt'' ''rb'' 3, Invoked (Keyword ''file_source'' (HandleArg 3)), Closed 3]\<rparr>)
   \<and> apply_caller (HandleUpload failing_handle_method (Some ''file_source'')) ''/data/a.txt'' io0
     = (Raised (wrapped 503),
        io0\<lparr>remote := 1, next_handle := 4,
            io_log := [Opened ''/data/a.txt'' ''rb'' 3, Invoked (Keyword ''file_source'' (HandleArg 3)), Closed 3]\<rparr>)
   \<and> count_list [Opened ''/data/a.txt'' ''rb'' 3, Invoked (Keyword ''file_source'' (HandleArg 3)), Closed 3] (Closed 3) = 1
   \<and> open_handles (snd (apply_caller (HandleUpload failing_handle_method (Some ''file_source'')) ''/data/a.txt'' io0)) = []
   \<and> apply_caller (HandleUpload handle_method (Some ''file_source'')) ''/data/gone'' (io0\<lparr>open_fails := (\<lambda>fp. Some plain_error)\<rparr>)
     = (Raised plain_error, io0\<lparr>open_fails := (\<lambda>fp. Some plain_error)\<rparr>)"
  using
    handle_closed_on_every_path [where s = io0 and fp = "''/data/a.txt''" and m = handle_method
      and p = "Some ''file_source''" and a = "Returned (http 200)"
      and c = "Keyword ''file_source'' (HandleArg 3)"
      and s' = "io0\<lparr>remote := 1, next_handle := 4,
            io_log := [Opened ''/data/a.txt'' ''rb'' 3, Invoked (Keyword ''file_source'' (HandleArg 3)), Closed 3]\<rparr>"]
    handle_closed_on_every_path [where s = io0 and fp = "''/data/a.txt''" and m = failing_handle_method
      and p = "Some ''file_source''" and a = "Raised (wrapped 503)"
      and c = "Keyword ''file_source'' (HandleArg 3)"
      and s' = "io0\<lparr>remote := 1, next_handle := 4,
            io_log := [Opened ''/data/a.txt'' ''rb'' 3, Invoked (Keyword ''file_source'' (HandleArg 3)), Closed 3]\<rparr>"]
    handle_closed_on_every_path [where s = "io0\<lparr>open_fails := (\<lambda>fp. Some plain_error)\<rparr>"
      and fp = "''/data/gone''" and m = handle_method and p = "Some ''file_source''" and e = plain_error]
    example_handle_runs
  by (simp add: io0_def)


section \<open>Properties of the run\<close>

lemma upload_all_facts:
  "upload_all upload_fn mul sleep_raises args n idx files (u, f) (s, out) = (eo, (u', f'), s', out') \<Longrightarrow>
     filter is_summary out' = filter is_summary out
     \<and> f' + length (filter is_fail_line out) = f + length (filter is_fail_line out')
     \<and> (eo = None \<longrightarrow> u' + f' = u + f + length files)"
proof (induction files arbitrary: idx u f s out)
  case Nil
  then show ?case by simp
next
  case (Cons fpath rest)
  obtain res s1 tr where run:
    "upload_with_retry upload_fn mul sleep_raises fpath (args_retries args) (args_retry_delay args) s
       = (res, s1, tr)"
    by (cases "upload_with_retry upload_fn mul sleep_raises fpath (args_retries args)
                 (args_retry_delay args) s")
  show ?case
  proof (cases res)
    case (Inl e)
    with Cons.prems run show ?thesis by auto
  next
    case (Inr pair)
    obtain response err where pair: "pair = (response, err)" by (cases pair)
    show ?thesis
    proof (cases err)
      case (Some msg)
      show ?thesis
      proof (cases "idx < n \<and> sleep_raises (args_sleep args) \<noteq> None")
        case True
        with Cons.prems run Inr pair Some show ?thesis by auto
      next
        case False
        let ?out = "out @ [Attempts fpath tr, Fail_line idx fpath msg]
                        @ (if idx < n then [Pause (args_sleep args)] else [])"
        from False Cons.prems run Inr pair Some
        have "upload_all upload_fn mul sleep_raises args n (idx + 1) rest (u, f + 1) (s1, ?out)
                = (eo, (u', f'), s', out')"
          by (cases "idx < n") auto
        from Cons.IH [OF this] show ?thesis by auto
      qed
    next
      case None
      show ?thesis
      proof (cases "read_status response")
        case (Inl e)
        with Cons.prems run Inr pair None show ?thesis by auto
      next
        case (Inr code)
        note code = this
        show ?thesis
        proof (cases "idx < n \<and> sleep_raises (args_sleep args) \<noteq> None")
          case True
          with Cons.prems run \<open>res = Inr pair\<close> pair None code show ?thesis by auto
        next
          case False
          let ?out = "out @ [Attempts fpath tr, Ok_line idx fpath code]
                          @ (if idx < n then [Pause (args_sleep args)] else [])"
          from False Cons.prems run \<open>res = Inr pair\<close> pair None code
          have "upload_all upload_fn mul sleep_raises args n (idx + 1) rest (u + 1, f) (s1, ?out)
                  = (eo, (u', f'), s', out')"
            by (cases "idx < n") auto
          from Cons.IH [OF this] show ?thesis by auto
        qed
      qed
    qed
  qed
qed

lemma main_empty:
  assumes "resolve_upload_fn a1000 = Inr c"
    and "collect_files env (args_target_path args) (args_recursive args) (args_exclude args) = Inr ([], k)"
  shows "main mul sleep_raises env a1000 args s = (Finished, s, [Summary 0 0 k k])"
  using assms by (simp add: main_def)

lemma main_completed:
  assumes "main mul sleep_raises env a1000 args s = (e, s', out)" and "Summary u f k t \<in> set out"
  shows "e = (if 0 < f then Aborted (SysExit 1 []) else Finished)
       \<and> filter is_summary out = [Summary u f k t]
       \<and> last out = Summary u f k t
       \<and> f = length (filter is_fail_line out)
       \<and> u + f + k = t"
proof (cases "resolve_upload_fn a1000")
  case (Inl ab)
  with assms show ?thesis by (simp add: main_def)
next
  case (Inr c)
  note c = this
  show ?thesis
  proof (cases "collect_files env (args_target_path args) (args_recursive args) (args_exclude args)")
    case (Inl ab)
    with assms c show ?thesis by (simp add: main_def)
  next
    case (Inr pair)
    obtain files skipped where pair: "pair = (files, skipped)" by (cases pair)
    show ?thesis
    proof (cases "files = []")
      case True
      with assms c Inr pair show ?thesis by (auto simp add: main_def)
    next
      case False
      obtain eo cnt s1 out1 where up0:
        "upload_all (apply_caller c) mul sleep_raises args (length files) 1 files (0, 0) (s, []) = (eo, cnt, s1, out1)"
        using prod_cases4 by blast
      obtain u' f' where "cnt = (u', f')" by (cases cnt)
      with up0 have up:
        "upload_all (apply_caller c) mul sleep_raises args (length files) 1 files (0, 0) (s, []) = (eo, (u', f'), s1, out1)"
        by simp
      from upload_all_facts [OF up]
      have nos: "filter is_summary out1 = []" and fl: "f' = length (filter is_fail_line out1)"
        and tot: "eo = None \<longrightarrow> u' + f' = length files"
        by auto
      from nos have notin: "Summary u f k t \<notin> set out1"
        by (auto simp add: filter_empty_conv)
      show ?thesis
      proof (cases eo)
        case (Some ex)
        with assms c Inr pair False up have "out = out1" by (simp add: main_def)
        with assms(2) notin show ?thesis by simp
      next
        case None
        with assms(1) c Inr pair False up
        have e: "e = (if 0 < f' then Aborted (SysExit 1 []) else Finished)"
          and out: "out = out1 @ [Summary u' f' skipped (length files + skipped)]"
          by (simp_all add: main_def Let_def)
        from out assms(2) notin have eq: "u = u'" "f = f'" "k = skipped" "t = length files + skipped"
          by auto
        with e out nos fl tot None show ?thesis by simp
      qed
    qed
  qed
qed

text \<open>The example runs: one file fails, no file fails, no file is collected.\<close>

lemma example_run_failing:
  "fst (main int_mul int_sleep example_env flaky_client example_args io0) = Aborted (SysExit 1 [])"
  "snd (snd (main int_mul int_sleep example_env flaky_client example_args io0))
     = [Attempts ''/data/a.txt'' [Called ''/data/a.txt''],
        Ok_line 1 ''/data/a.txt'' 200, Pause 2,
        Attempts ''/data/b.exe''
          [Called ''/data/b.exe'', Notice 1 3 ''HTTP 503'' 5, Slept 5,
           Called ''/data/b.exe'', Notice 2 3 ''HTTP 503'' 10, Slept 10,
           Called ''/data/b.exe''],
        Fail_line 2 ''/data/b.exe'' ''HTTP 503 after 3 attempts'',
        Summary 1 1 1 3]"
  by code_simp+

lemma example_run_clean:
  "fst (main int_mul int_sleep example_env flaky_client (example_args\<lparr>args_exclude := [''b*'', ''c*'']\<rparr>) io0)
     = Finished"
  "snd (snd (main int_mul int_sleep example_env flaky_client (example_args\<lparr>args_exclude := [''b*'', ''c*'']\<rparr>) io0))
     = [Attempts ''/data/a.txt'' [Called ''/data/a.txt''], Ok_line 1 ''/data/a.txt'' 200,
        Summary 1 0 2 3]"
  by code_simp+

lemma example_run_empty:
  "resolve_upload_fn flaky_client
     = Inr (KeywordPath \<lparr>signature = Inr [''file_path''], invoke = flaky\<rparr> ''file_path'')"
  "collect_files example_env (args_target_path (example_args\<lparr>args_exclude := [''*'']\<rparr>))
      (args_recursive (example_args\<lparr>args_exclude := [''*'']\<rparr>))
      (args_exclude (example_args\<lparr>args_exclude := [''*'']\<rparr>)) = Inr ([], 3)"
   apply (simp add: resolve_upload_fn_def flaky_client_def client_of_def lift_exc_def
      make_path_caller_def first_param_def truthy_def)
  apply code_simp
  done

text \<open>
  Claim C9. For every run that gets as far as the summary (with the counts uploaded,
  failed, skipped, total), the exit status is 0 exactly when the failed count is 0; with
  a failed count above 0 the status is 1, and the summary is the last thing printed
  before the process ends. The failed count is the number of \<open>[FAIL]\<close> lines printed,
  and the first three counts add up to the total. A run that collects no file prints the
  summary with zero uploads and zero failures and ends with status 0.
\<close>

theorem exit_status_iff_no_failure:
  "(main mul sleep_raises env a1000 args s = (e, s', out) \<and> Summary u f k t \<in> set out \<longrightarrow>
      (exit_status e = 0 \<longleftrightarrow> f = 0)
      \<and> (0 < f \<longrightarrow> exit_status e = 1)
      \<and> last out = Summary u f k t
      \<and> filter is_summary out = [Summary u f k t]
      \<and> f = length (filter is_fail_line out)
      \<and> u + f + k = t)
   \<and> (resolve_upload_fn a1000 = Inr c
       \<and> collect_files env (args_target_path args) (args_recursive args) (args_exclude args) = Inr ([], k0) \<longrightarrow>
      main mul sleep_raises env a1000 args s = (Finished, s, [Summary 0 0 k0 k0])
      \<and> exit_status Finished = 0)"
proof (intro conjI impI)
  assume "resolve_upload_fn a1000 = Inr c
       \<and> collect_files env (args_target_path args) (args_recursive args) (args_exclude args) = Inr ([], k0)"
  then show "main mul sleep_raises env a1000 args s = (Finished, s, [Summary 0 0 k0 k0])"
    by (simp add: main_empty)
next
  assume "main mul sleep_raises env a1000 args s = (e, s', out) \<and> Summary u f k t \<in> set out"
  then have m: "main mul sleep_raises env a1000 args s = (e, s', out)" and i: "Summary u f k t \<in> set out"
    by simp_all
  note facts = main_completed [OF m i]
  from facts show "exit_status e = 0 \<longleftrightarrow> f = 0" by simp
  from facts show "last out = Summary u f k t" by simp
  from facts show "filter is_summary out = [Summary u f k t]" by simp
  from facts show "f = length (filter is_fail_line out)" by simp
  from facts show "u + f + k = t" by simp
  assume "0 < f"
  with facts show "exit_status e = 1" by simp
qed simp

theorem exit_status_iff_no_failure_witness:
  "exit_status (fst (main int_mul int_sleep example_env flaky_client example_args io0)) = 1
   \<and> last (snd (snd (main int_mul int_sleep example_env flaky_client example_args io0))) = Summary 1 1 1 3
   \<and> length (filter is_fail_line (snd (snd (main int_mul int_sleep example_env flaky_client example_args io0)))) = 1
   \<and> exit_status (fst (main int_mul int_sleep example_env flaky_client
                          (example_args\<lparr>args_exclude := [''b*'', ''c*'']\<rparr>) io0)) = 0
   \<and> last (snd (snd (main int_mul int_sleep example_env flaky_client
                          (example_args\<lparr>args_exclude := [''b*'', ''c*'']\<rparr>) io0))) = Summary 1 0 2 3
   \<and> main int_mul int_sleep example_env flaky_client (example_args\<lparr>args_exclude := [''*'']\<rparr>) io0
       = (Finished, io0, [Summary 0 0 3 3])"
proof -
  let ?bad = "main int_mul int_sleep example_env flaky_client example_args io0"
  let ?good = "main int_mul int_sleep example_env flaky_client (example_args\<lparr>args_exclude := [''b*'', ''c*'']\<rparr>) io0"
  have "?bad = (fst ?bad, fst (snd ?bad), snd (snd ?bad))" by simp
  moreover have "Summary 1 1 1 3 \<in> set (snd (snd ?bad))" by (simp add: example_run_failing(2))
  ultimately have "?bad = (fst ?bad, fst (snd ?bad), snd (snd ?bad)) \<and> Summary 1 1 1 3 \<in> set (snd (snd ?bad))"
    by (rule conjI)
  with exit_status_iff_no_failure
    [where mul = int_mul and sleep_raises = int_sleep and env = example_env and ?a1000.0 = flaky_client and args = example_args
       and s = io0 and e = "fst ?bad" and s' = "fst (snd ?bad)" and out = "snd (snd ?bad)"
       and u = 1 and f = 1 and k = 1 and t = 3]
  have bad: "exit_status (fst ?bad) = 1" "last (snd (snd ?bad)) = Summary 1 1 1 3"
    "1 = length (filter is_fail_line (snd (snd ?bad)))"
    by simp_all
  have "?good = (fst ?good, fst (snd ?good), snd (snd ?good))" by simp
  moreover have "Summary 1 0 2 3 \<in> set (snd (snd ?good))" by (simp add: example_run_clean(2))
  ultimately have "?good = (fst ?good, fst (snd ?good), snd (snd ?good)) \<and> Summary 1 0 2 3 \<in> set (snd (snd ?good))"
    by (rule conjI)
  with exit_status_iff_no_failure
    [where mul = int_mul and sleep_raises = int_sleep and env = example_env and ?a1000.0 = flaky_client
       and args = "example_args\<lparr>args_exclude := [''b*'', ''c*'']\<rparr>"
       and s = io0 and e = "fst ?good" and s' = "fst (snd ?good)" and out = "snd (snd ?good)"
       and u = 1 and f = 0 and k = 2 and t = 3]
  have good: "exit_status (fst ?good) = 0" "last (snd (snd ?good)) = Summary 1 0 2 3"
    by simp_all
  from exit_status_iff_no_failure
    [where mul = int_mul and sleep_raises = int_sleep and env = example_env and ?a1000.0 = flaky_client
       and args = "example_args\<lparr>args_exclude := [''*'']\<rparr>" and s = io0
       and c = "KeywordPath \<lparr>signature = Inr [''file_path''], invoke = flaky\<rparr> ''file_path''"
       and ?k0.0 = 3]
    example_run_empty
  have empty: "main int_mul int_sleep example_env flaky_client (example_args\<lparr>args_exclude := [''*'']\<rparr>) io0
       = (Finished, io0, [Summary 0 0 3 3])"
    by blast
  from bad good empty show ?thesis by simp
qed


end
